theory Spec2Isabelle
  imports Main "HOL-Library.Word"
begin

unbundle bit_operations_syntax

section \<open>Python strings\<close>

text \<open>
  A Python \<open>str\<close> is a sequence of Unicode code points; \<open>len\<close> counts code points.
  Titles and article bodies are Ukrainian text, so a string is modelled as the list of its
  code points (\<open>ord\<close> of every character), and a \<open>bytes\<close> value as a list of octets.
\<close>

type_synonym ustr = "int list"
type_synonym bytes = "8 word list"

definition ascii :: "string \<Rightarrow> ustr" where
  "ascii s = map of_char s"

text \<open>
  The exceptions that the modelled code paths can raise. \<open>UnicodeEncodeError c start end\<close>
  is the error of the UTF-8 codec: the first character it cannot encode and the bounds
  \<open>e.start\<close>, \<open>e.end\<close> of the run. \<open>CharacterNotInRepertoireError\<close> is the error of the
  database driver for a text parameter that holds U+0000.
\<close>

datatype py_exception =
    UnicodeEncodeError int nat nat
  | CharacterNotInRepertoireError
  | ValueError ustr
  | External ustr

text \<open>Decimal digits of a number, and the four hexadecimal digits of a code point.\<close>

function decimal :: "nat \<Rightarrow> ustr" where
  "decimal n = (if n < 10 then [0x30 + int n] else decimal (n div 10) @ [0x30 + int (n mod 10)])"
  by pat_completeness auto
termination
  by (relation "measure id") auto

declare decimal.simps [simp del]

definition hex_digit_cp :: "int \<Rightarrow> int" where
  "hex_digit_cp v = (if v < 10 then 0x30 + v else 0x57 + v)"

definition hex4 :: "int \<Rightarrow> ustr" where
  "hex4 c = map hex_digit_cp [c div 4096 mod 16, c div 256 mod 16, c div 16 mod 16, c mod 16]"

text \<open>\<open>str(e)\<close>.\<close>

fun str_of_exception :: "py_exception \<Rightarrow> ustr" where
  "str_of_exception (UnicodeEncodeError c start stop) =
     [0x27] @ ascii ''utf-8'' @ [0x27] @ ascii '' codec can'' @ [0x27] @ ascii ''t encode ''
     @ (if stop = start + 1
        then ascii ''character '' @ [0x27, 0x5C] @ ascii ''u'' @ hex4 c @ [0x27]
             @ ascii '' in position '' @ decimal start
        else ascii ''characters in position '' @ decimal start @ ascii ''-'' @ decimal (stop - 1))
     @ ascii '': surrogates not allowed''"
| "str_of_exception CharacterNotInRepertoireError =
     ascii ''invalid byte sequence for encoding '' @ [0x22] @ ascii ''UTF8'' @ [0x22]
     @ ascii '': 0x00''"
| "str_of_exception (ValueError m) = m"
| "str_of_exception (External m) = m"

text \<open>
  \<open>str.isspace\<close> for one character: the white space that \<open>str.split()\<close>,
  \<open>str.strip()\<close> and the regular-expression class \<open>\s\<close> recognise.
\<close>

definition py_isspace :: "int \<Rightarrow> bool" where
  "py_isspace c \<longleftrightarrow>
     (0x09 \<le> c \<and> c \<le> 0x0D) \<or> (0x1C \<le> c \<and> c \<le> 0x20) \<or> c = 0x85 \<or> c = 0xA0 \<or>
     c = 0x1680 \<or> (0x2000 \<le> c \<and> c \<le> 0x200A) \<or> c = 0x2028 \<or> c = 0x2029 \<or>
     c = 0x202F \<or> c = 0x205F \<or> c = 0x3000"

definition py_strip :: "ustr \<Rightarrow> ustr" where
  "py_strip s = rev (dropWhile py_isspace (rev (dropWhile py_isspace s)))"

text \<open>
  \<open>str.split()\<close> without arguments: the maximal runs of characters that are not white
  space, in order. The first argument is the word being read.
\<close>

fun split_on :: "(int \<Rightarrow> bool) \<Rightarrow> ustr \<Rightarrow> ustr \<Rightarrow> ustr list" where
  "split_on sep w [] = (if w = [] then [] else [w])"
| "split_on sep w (c # cs) =
     (if sep c then (if w = [] then split_on sep [] cs else w # split_on sep [] cs)
      else split_on sep (w @ [c]) cs)"

definition py_split :: "ustr \<Rightarrow> ustr list" where
  "py_split s = split_on py_isspace [] s"

fun py_join :: "ustr \<Rightarrow> ustr list \<Rightarrow> ustr" where
  "py_join sep [] = []"
| "py_join sep [w] = w"
| "py_join sep (w # ws) = w @ sep @ py_join sep ws"

text \<open>The slice \<open>xs[:k]\<close>; a negative \<open>k\<close> counts from the end.\<close>

definition slice_to :: "int \<Rightarrow> 'a list \<Rightarrow> 'a list" where
  "slice_to k xs = (if 0 \<le> k then take (nat k) xs else take (length xs - nat (- k)) xs)"

text \<open>
  \<open>str.lower()\<close>, as CPython 3.11 computes it from the Unicode 14.0 character database.
  \<open>lower_table\<close> holds the one-to-one lower-case mappings: an entry
  \<open>(lo, hi, step, delta)\<close> maps every \<open>step\<close>-th code point from \<open>lo\<close> to \<open>hi\<close> to the
  code point \<open>delta\<close> further on; the entries are in ascending order of \<open>lo\<close>.
\<close>

definition lower_table :: "(int \<times> int \<times> int \<times> int) list" where
  "lower_table =
     [
      (0x41, 0x5A, 1, 32), (0xC0, 0xD6, 1, 32), (0xD8, 0xDE, 1, 32), (0x100, 0x12E, 2, 1),
      (0x132, 0x136, 2, 1), (0x139, 0x147, 2, 1), (0x14A, 0x176, 2, 1),
      (0x178, 0x178, 1, - 121), (0x179, 0x17D, 2, 1), (0x181, 0x181, 1, 210),
      (0x182, 0x184, 2, 1), (0x186, 0x186, 1, 206), (0x187, 0x187, 1, 1),
      (0x189, 0x18A, 1, 205), (0x18B, 0x18B, 1, 1), (0x18E, 0x18E, 1, 79),
      (0x18F, 0x18F, 1, 202), (0x190, 0x190, 1, 203), (0x191, 0x191, 1, 1),
      (0x193, 0x193, 1, 205), (0x194, 0x194, 1, 207), (0x196, 0x196, 1, 211),
      (0x197, 0x197, 1, 209), (0x198, 0x198, 1, 1), (0x19C, 0x19C, 1, 211),
      (0x19D, 0x19D, 1, 213), (0x19F, 0x19F, 1, 214), (0x1A0, 0x1A4, 2, 1),
      (0x1A6, 0x1A6, 1, 218), (0x1A7, 0x1A7, 1, 1), (0x1A9, 0x1A9, 1, 218),
      (0x1AC, 0x1AC, 1, 1), (0x1AE, 0x1AE, 1, 218), (0x1AF, 0x1AF, 1, 1),
      (0x1B1, 0x1B2, 1, 217), (0x1B3, 0x1B5, 2, 1), (0x1B7, 0x1B7, 1, 219),
      (0x1B8, 0x1B8, 1, 1), (0x1BC, 0x1BC, 1, 1), (0x1C4, 0x1C4, 1, 2), (0x1C5, 0x1C5, 1, 1),
      (0x1C7, 0x1C7, 1, 2), (0x1C8, 0x1C8, 1, 1), (0x1CA, 0x1CA, 1, 2), (0x1CB, 0x1DB, 2, 1),
      (0x1DE, 0x1EE, 2, 1), (0x1F1, 0x1F1, 1, 2), (0x1F2, 0x1F4, 2, 1), (0x1F6, 0x1F6, 1, - 97),
      (0x1F7, 0x1F7, 1, - 56), (0x1F8, 0x21E, 2, 1), (0x220, 0x220, 1, - 130),
      (0x222, 0x232, 2, 1), (0x23A, 0x23A, 1, 10795), (0x23B, 0x23B, 1, 1),
      (0x23D, 0x23D, 1, - 163), (0x23E, 0x23E, 1, 10792), (0x241, 0x241, 1, 1),
      (0x243, 0x243, 1, - 195), (0x244, 0x244, 1, 69), (0x245, 0x245, 1, 71),
      (0x246, 0x24E, 2, 1), (0x370, 0x372, 2, 1), (0x376, 0x376, 1, 1), (0x37F, 0x37F, 1, 116),
      (0x386, 0x386, 1, 38), (0x388, 0x38A, 1, 37), (0x38C, 0x38C, 1, 64),
      (0x38E, 0x38F, 1, 63), (0x391, 0x3A1, 1, 32), (0x3A3, 0x3AB, 1, 32), (0x3CF, 0x3CF, 1, 8),
      (0x3D8, 0x3EE, 2, 1), (0x3F4, 0x3F4, 1, - 60), (0x3F7, 0x3F7, 1, 1),
      (0x3F9, 0x3F9, 1, - 7), (0x3FA, 0x3FA, 1, 1), (0x3FD, 0x3FF, 1, - 130),
      (0x400, 0x40F, 1, 80), (0x410, 0x42F, 1, 32), (0x460, 0x480, 2, 1), (0x48A, 0x4BE, 2, 1),
      (0x4C0, 0x4C0, 1, 15), (0x4C1, 0x4CD, 2, 1), (0x4D0, 0x52E, 2, 1), (0x531, 0x556, 1, 48),
      (0x10A0, 0x10C5, 1, 7264), (0x10C7, 0x10C7, 1, 7264), (0x10CD, 0x10CD, 1, 7264),
      (0x13A0, 0x13EF, 1, 38864), (0x13F0, 0x13F5, 1, 8), (0x1C90, 0x1CBA, 1, - 3008),
      (0x1CBD, 0x1CBF, 1, - 3008), (0x1E00, 0x1E94, 2, 1), (0x1E9E, 0x1E9E, 1, - 7615),
      (0x1EA0, 0x1EFE, 2, 1), (0x1F08, 0x1F0F, 1, - 8), (0x1F18, 0x1F1D, 1, - 8),
      (0x1F28, 0x1F2F, 1, - 8), (0x1F38, 0x1F3F, 1, - 8), (0x1F48, 0x1F4D, 1, - 8),
      (0x1F59, 0x1F5F, 2, - 8), (0x1F68, 0x1F6F, 1, - 8), (0x1F88, 0x1F8F, 1, - 8),
      (0x1F98, 0x1F9F, 1, - 8), (0x1FA8, 0x1FAF, 1, - 8), (0x1FB8, 0x1FB9, 1, - 8),
      (0x1FBA, 0x1FBB, 1, - 74), (0x1FBC, 0x1FBC, 1, - 9), (0x1FC8, 0x1FCB, 1, - 86),
      (0x1FCC, 0x1FCC, 1, - 9), (0x1FD8, 0x1FD9, 1, - 8), (0x1FDA, 0x1FDB, 1, - 100),
      (0x1FE8, 0x1FE9, 1, - 8), (0x1FEA, 0x1FEB, 1, - 112), (0x1FEC, 0x1FEC, 1, - 7),
      (0x1FF8, 0x1FF9, 1, - 128), (0x1FFA, 0x1FFB, 1, - 126), (0x1FFC, 0x1FFC, 1, - 9),
      (0x2126, 0x2126, 1, - 7517), (0x212A, 0x212A, 1, - 8383), (0x212B, 0x212B, 1, - 8262),
      (0x2132, 0x2132, 1, 28), (0x2160, 0x216F, 1, 16), (0x2183, 0x2183, 1, 1),
      (0x24B6, 0x24CF, 1, 26), (0x2C00, 0x2C2F, 1, 48), (0x2C60, 0x2C60, 1, 1),
      (0x2C62, 0x2C62, 1, - 10743), (0x2C63, 0x2C63, 1, - 3814), (0x2C64, 0x2C64, 1, - 10727),
      (0x2C67, 0x2C6B, 2, 1), (0x2C6D, 0x2C6D, 1, - 10780), (0x2C6E, 0x2C6E, 1, - 10749),
      (0x2C6F, 0x2C6F, 1, - 10783), (0x2C70, 0x2C70, 1, - 10782), (0x2C72, 0x2C72, 1, 1),
      (0x2C75, 0x2C75, 1, 1), (0x2C7E, 0x2C7F, 1, - 10815), (0x2C80, 0x2CE2, 2, 1),
      (0x2CEB, 0x2CED, 2, 1), (0x2CF2, 0x2CF2, 1, 1), (0xA640, 0xA66C, 2, 1),
      (0xA680, 0xA69A, 2, 1), (0xA722, 0xA72E, 2, 1), (0xA732, 0xA76E, 2, 1),
      (0xA779, 0xA77B, 2, 1), (0xA77D, 0xA77D, 1, - 35332), (0xA77E, 0xA786, 2, 1),
      (0xA78B, 0xA78B, 1, 1), (0xA78D, 0xA78D, 1, - 42280), (0xA790, 0xA792, 2, 1),
      (0xA796, 0xA7A8, 2, 1), (0xA7AA, 0xA7AA, 1, - 42308), (0xA7AB, 0xA7AB, 1, - 42319),
      (0xA7AC, 0xA7AC, 1, - 42315), (0xA7AD, 0xA7AD, 1, - 42305), (0xA7AE, 0xA7AE, 1, - 42308),
      (0xA7B0, 0xA7B0, 1, - 42258), (0xA7B1, 0xA7B1, 1, - 42282), (0xA7B2, 0xA7B2, 1, - 42261),
      (0xA7B3, 0xA7B3, 1, 928), (0xA7B4, 0xA7C2, 2, 1), (0xA7C4, 0xA7C4, 1, - 48),
      (0xA7C5, 0xA7C5, 1, - 42307), (0xA7C6, 0xA7C6, 1, - 35384), (0xA7C7, 0xA7C9, 2, 1),
      (0xA7D0, 0xA7D0, 1, 1), (0xA7D6, 0xA7D8, 2, 1), (0xA7F5, 0xA7F5, 1, 1),
      (0xFF21, 0xFF3A, 1, 32), (0x10400, 0x10427, 1, 40), (0x104B0, 0x104D3, 1, 40),
      (0x10570, 0x1057A, 1, 39), (0x1057C, 0x1058A, 1, 39), (0x1058C, 0x10592, 1, 39),
      (0x10594, 0x10595, 1, 39), (0x10C80, 0x10CB2, 1, 64), (0x118A0, 0x118BF, 1, 32),
      (0x16E40, 0x16E5F, 1, 32), (0x1E900, 0x1E921, 1, 34)]"

fun lower_lookup :: "(int \<times> int \<times> int \<times> int) list \<Rightarrow> int \<Rightarrow> int" where
  "lower_lookup [] c = c"
| "lower_lookup ((lo, hi, step, delta) # rest) c =
     (if c < lo then c
      else if c \<le> hi \<and> (c - lo) mod step = 0 then c + delta
      else lower_lookup rest c)"

text \<open>
  The capital sigma U+03A3 becomes the final sigma U+03C2 when a cased letter stands before
  it and none behind it, case-ignorable characters not counted. The two tables hold the
  code points that this rule reads as cased letters and as case-ignorable, as ranges in
  ascending order.
\<close>

definition cased_ranges :: "(int \<times> int) list" where
  "cased_ranges =
     [
      (0x41, 0x5A), (0x61, 0x7A), (0xAA, 0xAA), (0xB5, 0xB5), (0xBA, 0xBA), (0xC0, 0xD6),
      (0xD8, 0xF6), (0xF8, 0x1BA), (0x1BC, 0x1BF), (0x1C4, 0x293), (0x295, 0x2AF),
      (0x370, 0x373), (0x376, 0x377), (0x37B, 0x37D), (0x37F, 0x37F), (0x386, 0x386),
      (0x388, 0x38A), (0x38C, 0x38C), (0x38E, 0x3A1), (0x3A3, 0x3F5), (0x3F7, 0x481),
      (0x48A, 0x52F), (0x531, 0x556), (0x560, 0x588), (0x10A0, 0x10C5), (0x10C7, 0x10C7),
      (0x10CD, 0x10CD), (0x10D0, 0x10FA), (0x10FD, 0x10FF), (0x13A0, 0x13F5), (0x13F8, 0x13FD),
      (0x1C80, 0x1C88), (0x1C90, 0x1CBA), (0x1CBD, 0x1CBF), (0x1D00, 0x1D2B), (0x1D6B, 0x1D77),
      (0x1D79, 0x1D9A), (0x1E00, 0x1F15), (0x1F18, 0x1F1D), (0x1F20, 0x1F45), (0x1F48, 0x1F4D),
      (0x1F50, 0x1F57), (0x1F59, 0x1F59), (0x1F5B, 0x1F5B), (0x1F5D, 0x1F5D), (0x1F5F, 0x1F7D),
      (0x1F80, 0x1FB4), (0x1FB6, 0x1FBC), (0x1FBE, 0x1FBE), (0x1FC2, 0x1FC4), (0x1FC6, 0x1FCC),
      (0x1FD0, 0x1FD3), (0x1FD6, 0x1FDB), (0x1FE0, 0x1FEC), (0x1FF2, 0x1FF4), (0x1FF6, 0x1FFC),
      (0x2102, 0x2102), (0x2107, 0x2107), (0x210A, 0x2113), (0x2115, 0x2115), (0x2119, 0x211D),
      (0x2124, 0x2124), (0x2126, 0x2126), (0x2128, 0x2128), (0x212A, 0x212D), (0x212F, 0x2134),
      (0x2139, 0x2139), (0x213C, 0x213F), (0x2145, 0x2149), (0x214E, 0x214E), (0x2160, 0x217F),
      (0x2183, 0x2184), (0x24B6, 0x24E9), (0x2C00, 0x2C7B), (0x2C7E, 0x2CE4), (0x2CEB, 0x2CEE),
      (0x2CF2, 0x2CF3), (0x2D00, 0x2D25), (0x2D27, 0x2D27), (0x2D2D, 0x2D2D), (0xA640, 0xA66D),
      (0xA680, 0xA69B), (0xA722, 0xA76F), (0xA771, 0xA787), (0xA78B, 0xA78E), (0xA790, 0xA7CA),
      (0xA7D0, 0xA7D1), (0xA7D3, 0xA7D3), (0xA7D5, 0xA7D9), (0xA7F5, 0xA7F6), (0xA7FA, 0xA7FA),
      (0xAB30, 0xAB5A), (0xAB60, 0xAB68), (0xAB70, 0xABBF), (0xFB00, 0xFB06), (0xFB13, 0xFB17),
      (0xFF21, 0xFF3A), (0xFF41, 0xFF5A), (0x10400, 0x1044F), (0x104B0, 0x104D3),
      (0x104D8, 0x104FB), (0x10570, 0x1057A), (0x1057C, 0x1058A), (0x1058C, 0x10592),
      (0x10594, 0x10595), (0x10597, 0x105A1), (0x105A3, 0x105B1), (0x105B3, 0x105B9),
      (0x105BB, 0x105BC), (0x10C80, 0x10CB2), (0x10CC0, 0x10CF2), (0x118A0, 0x118DF),
      (0x16E40, 0x16E7F), (0x1D400, 0x1D454), (0x1D456, 0x1D49C), (0x1D49E, 0x1D49F),
      (0x1D4A2, 0x1D4A2), (0x1D4A5, 0x1D4A6), (0x1D4A9, 0x1D4AC), (0x1D4AE, 0x1D4B9),
      (0x1D4BB, 0x1D4BB), (0x1D4BD, 0x1D4C3), (0x1D4C5, 0x1D505), (0x1D507, 0x1D50A),
      (0x1D50D, 0x1D514), (0x1D516, 0x1D51C), (0x1D51E, 0x1D539), (0x1D53B, 0x1D53E),
      (0x1D540, 0x1D544), (0x1D546, 0x1D546), (0x1D54A, 0x1D550), (0x1D552, 0x1D6A5),
      (0x1D6A8, 0x1D6C0), (0x1D6C2, 0x1D6DA), (0x1D6DC, 0x1D6FA), (0x1D6FC, 0x1D714),
      (0x1D716, 0x1D734), (0x1D736, 0x1D74E), (0x1D750, 0x1D76E), (0x1D770, 0x1D788),
      (0x1D78A, 0x1D7A8), (0x1D7AA, 0x1D7C2), (0x1D7C4, 0x1D7CB), (0x1DF00, 0x1DF09),
      (0x1DF0B, 0x1DF1E), (0x1E900, 0x1E943), (0x1F130, 0x1F149), (0x1F150, 0x1F169),
      (0x1F170, 0x1F189)]"

definition case_ignorable_ranges :: "(int \<times> int) list" where
  "case_ignorable_ranges =
     [
      (0x27, 0x27), (0x2E, 0x2E), (0x3A, 0x3A), (0x5E, 0x5E), (0x60, 0x60), (0xA8, 0xA8),
      (0xAD, 0xAD), (0xAF, 0xAF), (0xB4, 0xB4), (0xB7, 0xB8), (0x2B0, 0x36F), (0x374, 0x375),
      (0x37A, 0x37A), (0x384, 0x385), (0x387, 0x387), (0x483, 0x489), (0x559, 0x559),
      (0x55F, 0x55F), (0x591, 0x5BD), (0x5BF, 0x5BF), (0x5C1, 0x5C2), (0x5C4, 0x5C5),
      (0x5C7, 0x5C7), (0x5F4, 0x5F4), (0x600, 0x605), (0x610, 0x61A), (0x61C, 0x61C),
      (0x640, 0x640), (0x64B, 0x65F), (0x670, 0x670), (0x6D6, 0x6DD), (0x6DF, 0x6E8),
      (0x6EA, 0x6ED), (0x70F, 0x70F), (0x711, 0x711), (0x730, 0x74A), (0x7A6, 0x7B0),
      (0x7EB, 0x7F5), (0x7FA, 0x7FA), (0x7FD, 0x7FD), (0x816, 0x82D), (0x859, 0x85B),
      (0x888, 0x888), (0x890, 0x891), (0x898, 0x89F), (0x8C9, 0x902), (0x93A, 0x93A),
      (0x93C, 0x93C), (0x941, 0x948), (0x94D, 0x94D), (0x951, 0x957), (0x962, 0x963),
      (0x971, 0x971), (0x981, 0x981), (0x9BC, 0x9BC), (0x9C1, 0x9C4), (0x9CD, 0x9CD),
      (0x9E2, 0x9E3), (0x9FE, 0x9FE), (0xA01, 0xA02), (0xA3C, 0xA3C), (0xA41, 0xA42),
      (0xA47, 0xA48), (0xA4B, 0xA4D), (0xA51, 0xA51), (0xA70, 0xA71), (0xA75, 0xA75),
      (0xA81, 0xA82), (0xABC, 0xABC), (0xAC1, 0xAC5), (0xAC7, 0xAC8), (0xACD, 0xACD),
      (0xAE2, 0xAE3), (0xAFA, 0xAFF), (0xB01, 0xB01), (0xB3C, 0xB3C), (0xB3F, 0xB3F),
      (0xB41, 0xB44), (0xB4D, 0xB4D), (0xB55, 0xB56), (0xB62, 0xB63), (0xB82, 0xB82),
      (0xBC0, 0xBC0), (0xBCD, 0xBCD), (0xC00, 0xC00), (0xC04, 0xC04), (0xC3C, 0xC3C),
      (0xC3E, 0xC40), (0xC46, 0xC48), (0xC4A, 0xC4D), (0xC55, 0xC56), (0xC62, 0xC63),
      (0xC81, 0xC81), (0xCBC, 0xCBC), (0xCBF, 0xCBF), (0xCC6, 0xCC6), (0xCCC, 0xCCD),
      (0xCE2, 0xCE3), (0xD00, 0xD01), (0xD3B, 0xD3C), (0xD41, 0xD44), (0xD4D, 0xD4D),
      (0xD62, 0xD63), (0xD81, 0xD81), (0xDCA, 0xDCA), (0xDD2, 0xDD4), (0xDD6, 0xDD6),
      (0xE31, 0xE31), (0xE34, 0xE3A), (0xE46, 0xE4E), (0xEB1, 0xEB1), (0xEB4, 0xEBC),
      (0xEC6, 0xEC6), (0xEC8, 0xECD), (0xF18, 0xF19), (0xF35, 0xF35), (0xF37, 0xF37),
      (0xF39, 0xF39), (0xF71, 0xF7E), (0xF80, 0xF84), (0xF86, 0xF87), (0xF8D, 0xF97),
      (0xF99, 0xFBC), (0xFC6, 0xFC6), (0x102D, 0x1030), (0x1032, 0x1037), (0x1039, 0x103A),
      (0x103D, 0x103E), (0x1058, 0x1059), (0x105E, 0x1060), (0x1071, 0x1074), (0x1082, 0x1082),
      (0x1085, 0x1086), (0x108D, 0x108D), (0x109D, 0x109D), (0x10FC, 0x10FC), (0x135D, 0x135F),
      (0x1712, 0x1714), (0x1732, 0x1733), (0x1752, 0x1753), (0x1772, 0x1773), (0x17B4, 0x17B5),
      (0x17B7, 0x17BD), (0x17C6, 0x17C6), (0x17C9, 0x17D3), (0x17D7, 0x17D7), (0x17DD, 0x17DD),
      (0x180B, 0x180F), (0x1843, 0x1843), (0x1885, 0x1886), (0x18A9, 0x18A9), (0x1920, 0x1922),
      (0x1927, 0x1928), (0x1932, 0x1932), (0x1939, 0x193B), (0x1A17, 0x1A18), (0x1A1B, 0x1A1B),
      (0x1A56, 0x1A56), (0x1A58, 0x1A5E), (0x1A60, 0x1A60), (0x1A62, 0x1A62), (0x1A65, 0x1A6C),
      (0x1A73, 0x1A7C), (0x1A7F, 0x1A7F), (0x1AA7, 0x1AA7), (0x1AB0, 0x1ACE), (0x1B00, 0x1B03),
      (0x1B34, 0x1B34), (0x1B36, 0x1B3A), (0x1B3C, 0x1B3C), (0x1B42, 0x1B42), (0x1B6B, 0x1B73),
      (0x1B80, 0x1B81), (0x1BA2, 0x1BA5), (0x1BA8, 0x1BA9), (0x1BAB, 0x1BAD), (0x1BE6, 0x1BE6),
      (0x1BE8, 0x1BE9), (0x1BED, 0x1BED), (0x1BEF, 0x1BF1), (0x1C2C, 0x1C33), (0x1C36, 0x1C37),
      (0x1C78, 0x1C7D), (0x1CD0, 0x1CD2), (0x1CD4, 0x1CE0), (0x1CE2, 0x1CE8), (0x1CED, 0x1CED),
      (0x1CF4, 0x1CF4), (0x1CF8, 0x1CF9), (0x1D2C, 0x1D6A), (0x1D78, 0x1D78), (0x1D9B, 0x1DFF),
      (0x1FBD, 0x1FBD), (0x1FBF, 0x1FC1), (0x1FCD, 0x1FCF), (0x1FDD, 0x1FDF), (0x1FED, 0x1FEF),
      (0x1FFD, 0x1FFE), (0x200B, 0x200F), (0x2018, 0x2019), (0x2024, 0x2024), (0x2027, 0x2027),
      (0x202A, 0x202E), (0x2060, 0x2064), (0x2066, 0x206F), (0x2071, 0x2071), (0x207F, 0x207F),
      (0x2090, 0x209C), (0x20D0, 0x20F0), (0x2C7C, 0x2C7D), (0x2CEF, 0x2CF1), (0x2D6F, 0x2D6F),
      (0x2D7F, 0x2D7F), (0x2DE0, 0x2DFF), (0x2E2F, 0x2E2F), (0x3005, 0x3005), (0x302A, 0x302D),
      (0x3031, 0x3035), (0x303B, 0x303B), (0x3099, 0x309E), (0x30FC, 0x30FE), (0xA015, 0xA015),
      (0xA4F8, 0xA4FD), (0xA60C, 0xA60C), (0xA66F, 0xA672), (0xA674, 0xA67D), (0xA67F, 0xA67F),
      (0xA69C, 0xA69F), (0xA6F0, 0xA6F1), (0xA700, 0xA721), (0xA770, 0xA770), (0xA788, 0xA78A),
      (0xA7F2, 0xA7F4), (0xA7F8, 0xA7F9), (0xA802, 0xA802), (0xA806, 0xA806), (0xA80B, 0xA80B),
      (0xA825, 0xA826), (0xA82C, 0xA82C), (0xA8C4, 0xA8C5), (0xA8E0, 0xA8F1), (0xA8FF, 0xA8FF),
      (0xA926, 0xA92D), (0xA947, 0xA951), (0xA980, 0xA982), (0xA9B3, 0xA9B3), (0xA9B6, 0xA9B9),
      (0xA9BC, 0xA9BD), (0xA9CF, 0xA9CF), (0xA9E5, 0xA9E6), (0xAA29, 0xAA2E), (0xAA31, 0xAA32),
      (0xAA35, 0xAA36), (0xAA43, 0xAA43), (0xAA4C, 0xAA4C), (0xAA70, 0xAA70), (0xAA7C, 0xAA7C),
      (0xAAB0, 0xAAB0), (0xAAB2, 0xAAB4), (0xAAB7, 0xAAB8), (0xAABE, 0xAABF), (0xAAC1, 0xAAC1),
      (0xAADD, 0xAADD), (0xAAEC, 0xAAED), (0xAAF3, 0xAAF4), (0xAAF6, 0xAAF6), (0xAB5B, 0xAB5F),
      (0xAB69, 0xAB6B), (0xABE5, 0xABE5), (0xABE8, 0xABE8), (0xABED, 0xABED), (0xFB1E, 0xFB1E),
      (0xFBB2, 0xFBC2), (0xFE00, 0xFE0F), (0xFE13, 0xFE13), (0xFE20, 0xFE2F), (0xFE52, 0xFE52),
      (0xFE55, 0xFE55), (0xFEFF, 0xFEFF), (0xFF07, 0xFF07), (0xFF0E, 0xFF0E), (0xFF1A, 0xFF1A),
      (0xFF3E, 0xFF3E), (0xFF40, 0xFF40), (0xFF70, 0xFF70), (0xFF9E, 0xFF9F), (0xFFE3, 0xFFE3),
      (0xFFF9, 0xFFFB), (0x101FD, 0x101FD), (0x102E0, 0x102E0), (0x10376, 0x1037A),
      (0x10780, 0x10785), (0x10787, 0x107B0), (0x107B2, 0x107BA), (0x10A01, 0x10A03),
      (0x10A05, 0x10A06), (0x10A0C, 0x10A0F), (0x10A38, 0x10A3A), (0x10A3F, 0x10A3F),
      (0x10AE5, 0x10AE6), (0x10D24, 0x10D27), (0x10EAB, 0x10EAC), (0x10F46, 0x10F50),
      (0x10F82, 0x10F85), (0x11001, 0x11001), (0x11038, 0x11046), (0x11070, 0x11070),
      (0x11073, 0x11074), (0x1107F, 0x11081), (0x110B3, 0x110B6), (0x110B9, 0x110BA),
      (0x110BD, 0x110BD), (0x110C2, 0x110C2), (0x110CD, 0x110CD), (0x11100, 0x11102),
      (0x11127, 0x1112B), (0x1112D, 0x11134), (0x11173, 0x11173), (0x11180, 0x11181),
      (0x111B6, 0x111BE), (0x111C9, 0x111CC), (0x111CF, 0x111CF), (0x1122F, 0x11231),
      (0x11234, 0x11234), (0x11236, 0x11237), (0x1123E, 0x1123E), (0x112DF, 0x112DF),
      (0x112E3, 0x112EA), (0x11300, 0x11301), (0x1133B, 0x1133C), (0x11340, 0x11340),
      (0x11366, 0x1136C), (0x11370, 0x11374), (0x11438, 0x1143F), (0x11442, 0x11444),
      (0x11446, 0x11446), (0x1145E, 0x1145E), (0x114B3, 0x114B8), (0x114BA, 0x114BA),
      (0x114BF, 0x114C0), (0x114C2, 0x114C3), (0x115B2, 0x115B5), (0x115BC, 0x115BD),
      (0x115BF, 0x115C0), (0x115DC, 0x115DD), (0x11633, 0x1163A), (0x1163D, 0x1163D),
      (0x1163F, 0x11640), (0x116AB, 0x116AB), (0x116AD, 0x116AD), (0x116B0, 0x116B5),
      (0x116B7, 0x116B7), (0x1171D, 0x1171F), (0x11722, 0x11725), (0x11727, 0x1172B),
      (0x1182F, 0x11837), (0x11839, 0x1183A), (0x1193B, 0x1193C), (0x1193E, 0x1193E),
      (0x11943, 0x11943), (0x119D4, 0x119D7), (0x119DA, 0x119DB), (0x119E0, 0x119E0),
      (0x11A01, 0x11A0A), (0x11A33, 0x11A38), (0x11A3B, 0x11A3E), (0x11A47, 0x11A47),
      (0x11A51, 0x11A56), (0x11A59, 0x11A5B), (0x11A8A, 0x11A96), (0x11A98, 0x11A99),
      (0x11C30, 0x11C36), (0x11C38, 0x11C3D), (0x11C3F, 0x11C3F), (0x11C92, 0x11CA7),
      (0x11CAA, 0x11CB0), (0x11CB2, 0x11CB3), (0x11CB5, 0x11CB6), (0x11D31, 0x11D36),
      (0x11D3A, 0x11D3A), (0x11D3C, 0x11D3D), (0x11D3F, 0x11D45), (0x11D47, 0x11D47),
      (0x11D90, 0x11D91), (0x11D95, 0x11D95), (0x11D97, 0x11D97), (0x11EF3, 0x11EF4),
      (0x13430, 0x13438), (0x16AF0, 0x16AF4), (0x16B30, 0x16B36), (0x16B40, 0x16B43),
      (0x16F4F, 0x16F4F), (0x16F8F, 0x16F9F), (0x16FE0, 0x16FE1), (0x16FE3, 0x16FE4),
      (0x1AFF0, 0x1AFF3), (0x1AFF5, 0x1AFFB), (0x1AFFD, 0x1AFFE), (0x1BC9D, 0x1BC9E),
      (0x1BCA0, 0x1BCA3), (0x1CF00, 0x1CF2D), (0x1CF30, 0x1CF46), (0x1D167, 0x1D169),
      (0x1D173, 0x1D182), (0x1D185, 0x1D18B), (0x1D1AA, 0x1D1AD), (0x1D242, 0x1D244),
      (0x1DA00, 0x1DA36), (0x1DA3B, 0x1DA6C), (0x1DA75, 0x1DA75), (0x1DA84, 0x1DA84),
      (0x1DA9B, 0x1DA9F), (0x1DAA1, 0x1DAAF), (0x1E000, 0x1E006), (0x1E008, 0x1E018),
      (0x1E01B, 0x1E021), (0x1E023, 0x1E024), (0x1E026, 0x1E02A), (0x1E130, 0x1E13D),
      (0x1E2AE, 0x1E2AE), (0x1E2EC, 0x1E2EF), (0x1E8D0, 0x1E8D6), (0x1E944, 0x1E94B),
      (0x1F3FB, 0x1F3FF), (0xE0001, 0xE0001), (0xE0020, 0xE007F), (0xE0100, 0xE01EF)]"

fun in_ranges :: "(int \<times> int) list \<Rightarrow> int \<Rightarrow> bool" where
  "in_ranges [] c = False"
| "in_ranges ((lo, hi) # rest) c =
     (if c < lo then False else if c \<le> hi then True else in_ranges rest c)"

definition is_cased :: "int \<Rightarrow> bool" where
  "is_cased c = in_ranges cased_ranges c"

definition is_case_ignorable :: "int \<Rightarrow> bool" where
  "is_case_ignorable c = in_ranges case_ignorable_ranges c"

text \<open>\<open>seen\<close> is the text in front of the sigma, last character first.\<close>

definition final_sigma :: "ustr \<Rightarrow> ustr \<Rightarrow> bool" where
  "final_sigma seen after \<longleftrightarrow>
     (case dropWhile is_case_ignorable seen of [] \<Rightarrow> False | c # _ \<Rightarrow> is_cased c) \<and>
     (case dropWhile is_case_ignorable after of [] \<Rightarrow> True | c # _ \<Rightarrow> \<not> is_cased c)"

text \<open>
  One character at a time: the sigma by its context, U+0130 to the two code points
  U+0069 U+0307, every other character by the table.
\<close>

fun lower_from :: "ustr \<Rightarrow> ustr \<Rightarrow> ustr" where
  "lower_from seen [] = []"
| "lower_from seen (c # cs) =
     (if c = 0x3A3 then [if final_sigma seen cs then 0x3C2 else 0x3C3]
      else if c = 0x130 then [0x69, 0x307]
      else [lower_lookup lower_table c])
     @ lower_from (c # seen) cs"

definition py_lower :: "ustr \<Rightarrow> ustr" where
  "py_lower s = lower_from [] s"

text \<open>
  \<open>str.encode()\<close> (UTF-8, strict): a string with a lone surrogate raises
  \<open>UnicodeEncodeError\<close> for the first run of surrogates; every other string is encoded.
\<close>

definition is_scalar :: "int \<Rightarrow> bool" where
  "is_scalar c \<longleftrightarrow> (0 \<le> c \<and> c < 0xD800) \<or> (0xE000 \<le> c \<and> c \<le> 0x10FFFF)"

definition utf8_cp :: "int \<Rightarrow> bytes" where
  "utf8_cp c =
     (if c < 0x80 then [word_of_int c]
      else if c < 0x800 then [word_of_int (0xC0 + c div 64), word_of_int (0x80 + c mod 64)]
      else if c < 0x10000 then
        [word_of_int (0xE0 + c div 4096), word_of_int (0x80 + (c div 64) mod 64),
         word_of_int (0x80 + c mod 64)]
      else
        [word_of_int (0xF0 + c div 262144), word_of_int (0x80 + (c div 4096) mod 64),
         word_of_int (0x80 + (c div 64) mod 64), word_of_int (0x80 + c mod 64)])"

definition encode :: "ustr \<Rightarrow> py_exception + bytes" where
  "encode s =
     (let good = takeWhile is_scalar s; rest = drop (length good) s
      in case rest of
           [] \<Rightarrow> Inr (concat (map utf8_cp s))
         | c # _ \<Rightarrow>
             Inl (UnicodeEncodeError c (length good)
                    (length good + length (takeWhile (\<lambda>x. \<not> is_scalar x) rest))))"

section \<open>hashlib.md5\<close>

text \<open>
  The digest of \<open>hashlib.md5(data).hexdigest()\<close>, RFC 1321: the message is padded to a
  multiple of 64 octets, and every block of sixteen little-endian words goes through 64 steps.
\<close>

type_synonym u32 = "32 word"

definition md5_K :: "u32 list" where
  "md5_K = [0xd76aa478, 0xe8c7b756, 0x242070db, 0xc1bdceee, 0xf57c0faf, 0x4787c62a, 0xa8304613, 0xfd469501, 0x698098d8, 0x8b44f7af, 0xffff5bb1, 0x895cd7be, 0x6b901122, 0xfd987193, 0xa679438e, 0x49b40821, 0xf61e2562, 0xc040b340, 0x265e5a51, 0xe9b6c7aa, 0xd62f105d, 0x02441453, 0xd8a1e681, 0xe7d3fbc8, 0x21e1cde6, 0xc33707d6, 0xf4d50d87, 0x455a14ed, 0xa9e3e905, 0xfcefa3f8, 0x676f02d9, 0x8d2a4c8a, 0xfffa3942, 0x8771f681, 0x6d9d6122, 0xfde5380c, 0xa4beea44, 0x4bdecfa9, 0xf6bb4b60, 0xbebfbc70, 0x289b7ec6, 0xeaa127fa, 0xd4ef3085, 0x04881d05, 0xd9d4d039, 0xe6db99e5, 0x1fa27cf8, 0xc4ac5665, 0xf4292244, 0x432aff97, 0xab9423a7, 0xfc93a039, 0x655b59c3, 0x8f0ccc92, 0xffeff47d, 0x85845dd1, 0x6fa87e4f, 0xfe2ce6e0, 0xa3014314, 0x4e0811a1, 0xf7537e82, 0xbd3af235, 0x2ad7d2bb, 0xeb86d391]"

definition md5_s :: "nat list" where
  "md5_s = [7, 12, 17, 22, 7, 12, 17, 22, 7, 12, 17, 22, 7, 12, 17, 22,
            5, 9, 14, 20, 5, 9, 14, 20, 5, 9, 14, 20, 5, 9, 14, 20,
            4, 11, 16, 23, 4, 11, 16, 23, 4, 11, 16, 23, 4, 11, 16, 23,
            6, 10, 15, 21, 6, 10, 15, 21, 6, 10, 15, 21, 6, 10, 15, 21]"

definition rotl32 :: "u32 \<Rightarrow> nat \<Rightarrow> u32" where
  "rotl32 x c = push_bit c x OR drop_bit (32 - c) x"

type_synonym md5_state = "u32 \<times> u32 \<times> u32 \<times> u32"

fun md5_step :: "u32 list \<Rightarrow> md5_state \<Rightarrow> nat \<Rightarrow> md5_state" where
  "md5_step M (a, b, c, d) i =
     (let f = (if i < 16 then (b AND c) OR (NOT b AND d)
               else if i < 32 then (d AND b) OR (NOT d AND c)
               else if i < 48 then b XOR c XOR d
               else c XOR (b OR NOT d));
          g = (if i < 16 then i
               else if i < 32 then (5 * i + 1) mod 16
               else if i < 48 then (3 * i + 5) mod 16
               else (7 * i) mod 16);
          f' = f + a + md5_K ! i + M ! g
      in (d, b + rotl32 f' (md5_s ! i), b, c))"

fun le_word :: "8 word list \<Rightarrow> u32" where
  "le_word [] = 0"
| "le_word (b # bs) = ucast b OR push_bit 8 (le_word bs)"

fun chunks :: "nat \<Rightarrow> nat \<Rightarrow> 'a list \<Rightarrow> 'a list list" where
  "chunks 0 n xs = []"
| "chunks (Suc k) n xs = take n xs # chunks k n (drop n xs)"

definition md5_block :: "md5_state \<Rightarrow> 8 word list \<Rightarrow> md5_state" where
  "md5_block st blk =
     (let M = map le_word (chunks 16 4 blk);
          (a0, b0, c0, d0) = st;
          (a, b, c, d) = foldl (md5_step M) st [0..<64]
      in (a0 + a, b0 + b, c0 + c, d0 + d))"

definition le_bytes32 :: "u32 \<Rightarrow> 8 word list" where
  "le_bytes32 w = map (\<lambda>k. ucast (drop_bit (8 * k) w)) [0..<4]"

definition le_bytes64 :: "64 word \<Rightarrow> 8 word list" where
  "le_bytes64 w = map (\<lambda>k. ucast (drop_bit (8 * k) w)) [0..<8]"

definition md5_pad :: "8 word list \<Rightarrow> 8 word list" where
  "md5_pad msg = msg @ [0x80] @ replicate ((119 - length msg mod 64) mod 64) 0
                 @ le_bytes64 (8 * of_nat (length msg))"

definition md5 :: "8 word list \<Rightarrow> 8 word list" where
  "md5 msg =
     (let p = md5_pad msg;
          (a, b, c, d) = foldl md5_block (0x67452301, 0xefcdab89, 0x98badcfe, 0x10325476)
                           (chunks (length p div 64) 64 p)
      in concat (map le_bytes32 [a, b, c, d]))"

definition hex_digit :: "8 word \<Rightarrow> char" where
  "hex_digit n = ''0123456789abcdef'' ! unat n"

definition hexdigest :: "8 word list \<Rightarrow> string" where
  "hexdigest bs = concat (map (\<lambda>b. [hex_digit (drop_bit 4 b), hex_digit (b AND 0x0F)]) bs)"


section \<open>Database: article fingerprints\<close>

text \<open>
  The table \<open>article_fingerprints (title_hash UNIQUE, original_title)\<close>, as the list of
  its rows in insertion order.
\<close>

type_synonym fingerprints = "(string \<times> ustr) list"

definition title_hash :: "ustr \<Rightarrow> py_exception + string" where
  "title_hash title =
     (case encode (py_lower title) of
        Inl e \<Rightarrow> Inl e
      | Inr data \<Rightarrow> Inr (hexdigest (md5 data)))"

text \<open>\<open>INSERT ... ON CONFLICT (title_hash) DO NOTHING\<close>.\<close>

definition insert_fingerprint :: "string \<Rightarrow> ustr \<Rightarrow> fingerprints \<Rightarrow> fingerprints" where
  "insert_fingerprint h title fps =
     (if h \<in> fst ` set fps then fps else fps @ [(h, title)])"

text \<open>
  \<open>add_article_fingerprint\<close>: the digest first; then the statement, which the database
  refuses when the title it is to store holds U+0000.
\<close>

definition add_article_fingerprint :: "ustr \<Rightarrow> fingerprints \<Rightarrow> py_exception + fingerprints" where
  "add_article_fingerprint title fps =
     (case title_hash title of
        Inl e \<Rightarrow> Inl e
      | Inr h \<Rightarrow>
          (if 0 \<in> set title then Inl CharacterNotInRepertoireError
           else Inr (insert_fingerprint h title fps)))"

text \<open>A sequence of \<open>add_article_fingerprint\<close> calls, stopped by the first exception.\<close>

fun add_all :: "ustr list \<Rightarrow> fingerprints \<Rightarrow> py_exception + fingerprints" where
  "add_all [] fps = Inr fps"
| "add_all (t # ts) fps =
     (case add_article_fingerprint t fps of Inl e \<Rightarrow> Inl e | Inr fps' \<Rightarrow> add_all ts fps')"

text \<open>\<open>SELECT id FROM article_fingerprints WHERE title_hash = $1\<close>, \<open>row is not None\<close>.\<close>

definition check_duplicate :: "ustr \<Rightarrow> fingerprints \<Rightarrow> py_exception + bool" where
  "check_duplicate title fps =
     (case title_hash title of
        Inl e \<Rightarrow> Inl e
      | Inr h \<Rightarrow> Inr (h \<in> fst ` set fps))"

section \<open>Text helpers\<close>

text \<open>
  The characters of the class
  \<^verbatim>\<open>[,"\':;!?\(\)\[\]\{\}<>/\\|@#$%^&*=+~]\<close>
  that \<open>extract_keywords_from_title\<close> replaces.
\<close>

definition special_chars :: "int list" where
  "special_chars =
     [0x2C, 0x22, 0x27, 0x3A, 0x3B, 0x21, 0x3F, 0x28, 0x29, 0x5B, 0x5D, 0x7B, 0x7D, 0x3C,
      0x3E, 0x2F, 0x5C, 0x7C, 0x40, 0x23, 0x24, 0x25, 0x5E, 0x26, 0x2A, 0x3D, 0x2B, 0x7E]"

definition is_special :: "int \<Rightarrow> bool" where
  "is_special c \<longleftrightarrow> c \<in> set special_chars"

text \<open>The default topic \<open>"\<dots>"\<close> (Ukraine, in Ukrainian): seven Cyrillic letters.\<close>

definition default_topic :: ustr where
  "default_topic = [0x423, 0x43A, 0x440, 0x430, 0x457, 0x43D, 0x430]"

text \<open>
  \<open>re.sub(class, ' ', title)\<close> with a one-character class replaces every character of
  the class by a space, which is a \<open>map\<close>.
\<close>

definition extract_keywords_from_title :: "ustr \<Rightarrow> int \<Rightarrow> ustr" where
  "extract_keywords_from_title title max_words =
     (if title = [] then default_topic
      else
        let cleaned = map (\<lambda>c. if is_special c then 0x20 else c) title;
            words = filter (\<lambda>w. length w > 2) (py_split cleaned);
            keywords = py_join [0x20] (slice_to max_words words)
        in if keywords = [] \<or> length (py_strip keywords) < 3 then default_topic
           else py_strip keywords)"

text \<open>
  The derived query in the words of the specification: the tokens of the title are its
  maximal runs of characters that are neither special nor white space; tokens of at most
  two characters are discarded; the first five are joined by single spaces; an empty or
  too short result gives the default topic.
\<close>

definition derived_query_spec :: "ustr \<Rightarrow> ustr" where
  "derived_query_spec title =
     (let tokens = split_on (\<lambda>c. is_special c \<or> py_isspace c) [] title;
          q = py_join [0x20] (take 5 (filter (\<lambda>w. \<not> length w \<le> 2) tokens))
      in if q = [] \<or> length q < 3 then default_topic else q)"

subsection \<open>Regular-expression substitution\<close>

text \<open>
  \<open>re.sub(pattern, repl, s)\<close>: the text is scanned from the left; where the pattern
  matches, the replacement is written and the scan goes on behind the match; elsewhere the
  character is copied. A matcher takes the text from the current position and returns the
  replacement with the length of the match. After an empty match the next character is
  copied.
\<close>

type_synonym matcher = "ustr \<Rightarrow> (ustr \<times> nat) option"

function re_sub :: "matcher \<Rightarrow> ustr \<Rightarrow> ustr" where
  "re_sub m [] = (case m [] of None \<Rightarrow> [] | Some (r, n) \<Rightarrow> r)"
| "re_sub m (c # cs) =
     (case m (c # cs) of
        None \<Rightarrow> c # re_sub m cs
      | Some (r, n) \<Rightarrow>
          (if n = 0 then r @ c # re_sub m cs else r @ re_sub m (drop n (c # cs))))"
  by pat_completeness auto
termination
  by (relation "measure (\<lambda>(m, s). length s)") auto

definition starts_with :: "ustr \<Rightarrow> ustr \<Rightarrow> bool" where
  "starts_with p s \<longleftrightarrow> take (length p) s = p"

text \<open>A literal: the length of the match.\<close>

definition lit :: "ustr \<Rightarrow> ustr \<Rightarrow> nat option" where
  "lit p s = (if starts_with p s then Some (length p) else None)"

text \<open>
  \<open>pre[^>]*>\<close>: the literal, the characters up to the next \<open>>\<close>, and that
  character. \<open>[^>]*\<close> cannot give a character back to the \<open>>\<close> behind it.
\<close>

definition open_tag :: "ustr \<Rightarrow> ustr \<Rightarrow> nat option" where
  "open_tag pre s =
     (if starts_with pre s then
        (let r = drop (length pre) s; a = takeWhile (\<lambda>c. c \<noteq> 0x3E) r
         in if length a < length r then Some (length pre + length a + 1) else None)
      else None)"

text \<open>
  \<open>(.*?)close\<close> with \<open>re.DOTALL\<close>: the shortest group behind which the closing
  pattern matches; the group and the length of the closing match.
\<close>

fun lazy_until :: "(ustr \<Rightarrow> nat option) \<Rightarrow> ustr \<Rightarrow> (ustr \<times> nat) option" where
  "lazy_until cl [] = (case cl [] of None \<Rightarrow> None | Some k \<Rightarrow> Some ([], k))"
| "lazy_until cl (c # cs) =
     (case cl (c # cs) of
        Some k \<Rightarrow> Some ([], k)
      | None \<Rightarrow> (case lazy_until cl cs of None \<Rightarrow> None | Some (g, k) \<Rightarrow> Some (c # g, k)))"

text \<open>\<open>open(.*?)close\<close>, replaced by a text built from the group.\<close>

definition element ::
  "(ustr \<Rightarrow> nat option) \<Rightarrow> (ustr \<Rightarrow> nat option) \<Rightarrow> (ustr \<Rightarrow> ustr) \<Rightarrow> matcher" where
  "element opn cls repl s =
     (case opn s of
        None \<Rightarrow> None
      | Some n \<Rightarrow>
          (case lazy_until cls (drop n s) of
             None \<Rightarrow> None
           | Some (g, k) \<Rightarrow> Some (repl g, n + length g + k)))"

text \<open>\<open><h[1-6][^>]*>\<close> and \<open></h[1-6]>\<close>.\<close>

definition open_heading :: "ustr \<Rightarrow> nat option" where
  "open_heading s =
     (case s of
        a # b # d # r \<Rightarrow>
          (if a = 0x3C \<and> b = 0x68 \<and> 0x31 \<le> d \<and> d \<le> 0x36
           then map_option (\<lambda>n. n + 3) (open_tag [] r) else None)
      | _ \<Rightarrow> None)"

definition close_heading :: "ustr \<Rightarrow> nat option" where
  "close_heading s =
     (case s of
        a # b # c # d # e # r \<Rightarrow>
          (if a = 0x3C \<and> b = 0x2F \<and> c = 0x68 \<and> 0x31 \<le> d \<and> d \<le> 0x36 \<and> e = 0x3E
           then Some 5 else None)
      | _ \<Rightarrow> None)"

text \<open>\<open></?name[^>]*>\<close>, removed.\<close>

definition any_tag :: "ustr \<Rightarrow> matcher" where
  "any_tag name s =
     (case open_tag (ascii ''</'' @ name) s of
        Some n \<Rightarrow> Some ([], n)
      | None \<Rightarrow> map_option (\<lambda>n. ([], n)) (open_tag (ascii ''<'' @ name) s))"

text \<open>\<open><br\s*/?>\<close>, replaced by a line feed.\<close>

definition br_tag :: matcher where
  "br_tag s =
     (if starts_with (ascii ''<br'') s then
        (let r = drop 3 s; r' = dropWhile py_isspace r; k = length r - length r'
         in case r' of
              a # b # _ \<Rightarrow>
                (if a = 0x2F \<and> b = 0x3E then Some ([0x0A], k + 5)
                 else if a = 0x3E then Some ([0x0A], k + 4) else None)
            | [a] \<Rightarrow> (if a = 0x3E then Some ([0x0A], k + 4) else None)
            | [] \<Rightarrow> None)
      else None)"

text \<open>
  \<open><(?!/?(b|i|u|s|code|pre|a))[^>]+>\<close>, removed: a tag whose name, after an optional
  slash, does not begin with one of the seven alternatives.
\<close>

definition allowed_names :: "ustr list" where
  "allowed_names =
     [ascii ''b'', ascii ''i'', ascii ''u'', ascii ''s'', ascii ''code'', ascii ''pre'',
      ascii ''a'']"

definition allowed_ahead :: "ustr \<Rightarrow> bool" where
  "allowed_ahead r \<longleftrightarrow>
     (starts_with [0x2F] r \<and> list_ex (\<lambda>a. starts_with a (drop 1 r)) allowed_names) \<or>
     list_ex (\<lambda>a. starts_with a r) allowed_names"

definition other_tag :: matcher where
  "other_tag s =
     (case s of
        [] \<Rightarrow> None
      | c # r \<Rightarrow>
          (if c = 0x3C \<and> \<not> allowed_ahead r then
             (let a = takeWhile (\<lambda>c. c \<noteq> 0x3E) r
              in if a \<noteq> [] \<and> length a < length r then Some ([], length a + 2) else None)
           else None))"

text \<open>\<open>\n{3,}\<close>, replaced by two line feeds.\<close>

definition newlines :: matcher where
  "newlines s =
     (let k = length (takeWhile (\<lambda>c. c = 0x0A) s)
      in if 3 \<le> k then Some ([0x0A, 0x0A], k) else None)"

text \<open>
  The conversion of the article's HTML to the markup of the Telegram channel: the
  substitutions and the final \<open>strip()\<close>, before the text is cut to its maximal length.
\<close>

definition telegram_markup :: "ustr \<Rightarrow> ustr" where
  "telegram_markup html_content =
     (let h = re_sub (element open_heading close_heading
                 (\<lambda>g. [0x0A, 0x0A] @ ascii ''<b>'' @ g @ ascii ''</b>'' @ [0x0A, 0x0A]))
                html_content;
          h = re_sub (element (lit (ascii ''<strong>'')) (lit (ascii ''</strong>''))
                 (\<lambda>g. ascii ''<b>'' @ g @ ascii ''</b>'')) h;
          h = re_sub (element (lit (ascii ''<em>'')) (lit (ascii ''</em>''))
                 (\<lambda>g. ascii ''<i>'' @ g @ ascii ''</i>'')) h;
          h = re_sub (any_tag (ascii ''ul'')) h;
          h = re_sub (any_tag (ascii ''ol'')) h;
          h = re_sub (element (open_tag (ascii ''<li'')) (lit (ascii ''</li>''))
                 (\<lambda>g. [0x0A, 0x2022, 0x20] @ g)) h;
          h = re_sub (element (open_tag (ascii ''<p'')) (lit (ascii ''</p>''))
                 (\<lambda>g. g @ [0x0A, 0x0A])) h;
          h = re_sub br_tag h;
          h = re_sub other_tag h;
          h = re_sub newlines h
      in py_strip h)"

text \<open>\<open>html_to_telegram\<close>: the markup, cut to \<open>max_length\<close> with an ellipsis.\<close>

definition html_to_telegram :: "ustr \<Rightarrow> int \<Rightarrow> ustr" where
  "html_to_telegram html_content max_length =
     (let h = telegram_markup html_content
      in if int (length h) > max_length then slice_to (max_length - 3) h @ ascii ''...''
         else h)"

text \<open>Whether a text occurs in another, as Python's \<open>in\<close> on strings.\<close>

fun occurs_in :: "ustr \<Rightarrow> ustr \<Rightarrow> bool" where
  "occurs_in p [] = (p = [])"
| "occurs_in p (c # cs) = (starts_with p (c # cs) \<or> occurs_in p cs)"

section \<open>The database\<close>

record user_settings_row =
  auto_publish_enabled :: bool
  auto_publish_interval :: int
  auto_publish_to_wp :: bool
  auto_publish_to_tg :: bool
  enabled_categories :: "int list"
  last_publish_time :: "int option"

record published_article =
  pa_user_id :: int
  pa_wp_post_id :: "int option"
  pa_tg_message_id :: "int option"
  pa_title :: ustr
  pa_url :: "ustr option"
  pa_category_id :: "int option"
  published_to_wp :: bool
  published_to_tg :: bool

record log_row =
  log_user_id :: int
  log_action_kind :: string
  log_status :: string
  log_message :: ustr
  log_details :: "(int option \<times> ustr option) option"

text \<open>
  The tables the pipeline reads and writes, each as the list of its rows (\<open>user_settings\<close>
  with the operator's number as key). Apart from the refusal of U+0000 in
  \<open>add_article_fingerprint\<close>, statements on the database are taken to succeed; the calls
  that leave the process (aggregator, rewriter, site, Telegram) can fail.
\<close>

record database =
  wp_categories :: "(ustr \<times> int) list"
  published_articles :: "published_article list"
  article_fingerprints :: fingerprints
  user_settings :: "(int \<times> user_settings_row) list"
  logs :: "log_row list"

definition get_category_id_by_name :: "database \<Rightarrow> ustr \<Rightarrow> int option" where
  "get_category_id_by_name db name = map_of (wp_categories db) name"

definition default_settings :: user_settings_row where
  "default_settings =
     \<lparr>auto_publish_enabled = False, auto_publish_interval = 180, auto_publish_to_wp = True,
      auto_publish_to_tg = False, enabled_categories = [], last_publish_time = None\<rparr>"

text \<open>The row of the operator; a missing row is inserted with the defaults.\<close>

definition get_user_settings :: "int \<Rightarrow> database \<Rightarrow> user_settings_row \<times> database" where
  "get_user_settings user_id db =
     (case map_of (user_settings db) user_id of
        Some row \<Rightarrow> (row, db)
      | None \<Rightarrow>
          (default_settings,
           db\<lparr>user_settings := user_settings db @ [(user_id, default_settings)]\<rparr>))"

definition save_published_article ::
  "int \<Rightarrow> int option \<Rightarrow> int option \<Rightarrow> ustr \<Rightarrow> ustr option \<Rightarrow> int option \<Rightarrow> bool \<Rightarrow> bool \<Rightarrow>
   database \<Rightarrow> database" where
  "save_published_article user_id wp_post_id tg_message_id title url category_id to_wp to_tg db =
     db\<lparr>published_articles := published_articles db @
          [\<lparr>pa_user_id = user_id, pa_wp_post_id = wp_post_id,
            pa_tg_message_id = tg_message_id, pa_title = title, pa_url = url,
            pa_category_id = category_id, published_to_wp = to_wp,
            published_to_tg = to_tg\<rparr>]\<rparr>"

text \<open>\<open>UPDATE user_settings SET last_publish_time = NOW() WHERE user_id = $1\<close>.\<close>

definition update_last_publish_time :: "int \<Rightarrow> int \<Rightarrow> database \<Rightarrow> database" where
  "update_last_publish_time now user_id db =
     db\<lparr>user_settings :=
          map (\<lambda>(k, row). if k = user_id then (k, row\<lparr>last_publish_time := Some now\<rparr>)
                           else (k, row))
            (user_settings db)\<rparr>"

definition log_action ::
  "int \<Rightarrow> string \<Rightarrow> string \<Rightarrow> ustr \<Rightarrow> (int option \<times> ustr option) option \<Rightarrow> database \<Rightarrow> database" where
  "log_action user_id action status message details db =
     db\<lparr>logs := logs db @
          [\<lparr>log_user_id = user_id, log_action_kind = action, log_status = status,
            log_message = message, log_details = details\<rparr>]\<rparr>"

section \<open>The services outside the process\<close>

record news_item =
  n_title :: "ustr option"
  n_description :: "ustr option"
  n_url :: "ustr option"
  n_image :: "ustr option"

record article =
  title :: ustr
  category :: ustr
  excerpt :: ustr
  content :: ustr
  seo_description :: ustr
  category_id :: "int option"

text \<open>
  The answer to the aggregator's HTTP request: a status with the \<open>articles\<close> field of
  the JSON body (\<open>None\<close> when the body has no such field), or an exception (time-out,
  connection error, a body that is not JSON).
\<close>

datatype http_reply = Reply int "news_item list option" | Failed py_exception

text \<open>The messages the bot sends to the operator.\<close>

datatype notice =
    No_news
  | Category_skipped ustr
  | Duplicate_found
  | Auto_published ustr "ustr option" "int option"
  | Auto_error ustr
  | Article_not_found
  | Progress string
  | Published ustr "ustr option" "int option"
  | Publish_error ustr

text \<open>The calls that leave the process, in the order they are made, with their outcome.\<close>

datatype call =
    GNews_search ustr
  | GPT_generate
  | WP_upload_image ustr bool
  | WP_create_post ustr bool
  | TG_channel_send ustr bool
  | TG_notify int notice bool

fun is_destination_call :: "call \<Rightarrow> bool" where
  "is_destination_call (WP_upload_image _ _) = True"
| "is_destination_call (WP_create_post _ _) = True"
| "is_destination_call (TG_channel_send _ _) = True"
| "is_destination_call _ = False"

text \<open>What the outside world answers in one run.\<close>

record world =
  gnews_get :: "ustr \<Rightarrow> http_reply"
  gpt_reply :: "news_item list \<Rightarrow> py_exception + (string \<times> ustr) list"
  wp_upload :: "ustr \<Rightarrow> py_exception + int"
  wp_create :: "article \<Rightarrow> int option \<Rightarrow> py_exception + (int \<times> ustr)"
  tg_send :: "ustr \<Rightarrow> py_exception + int"
  tg_notify :: "int \<Rightarrow> notice \<Rightarrow> py_exception option"
  now :: int

record run =
  db :: database
  calls :: "call list"

definition is_ok :: "'e + 'a \<Rightarrow> bool" where
  "is_ok x = (case x of Inl _ \<Rightarrow> False | Inr _ \<Rightarrow> True)"

subsection \<open>GNewsService\<close>

definition sanitize_query :: "ustr \<Rightarrow> ustr" where
  "sanitize_query query =
     (if query = [] \<or> query = [0x2A] then default_topic
      else
        let cleaned = map (\<lambda>c. if is_special c then 0x20 else c) query;
            cleaned = py_join [0x20] (py_split cleaned);
            cleaned = (if length cleaned > 100 then py_join [0x20] (take 10 (py_split cleaned))
                       else cleaned)
        in if cleaned = [] \<or> length (py_strip cleaned) < 3 then default_topic
           else py_strip cleaned)"

text \<open>
  \<open>search_news\<close>: the articles of a reply with status 200; the empty list for any other
  status and for any exception.
\<close>

definition search_news :: "world \<Rightarrow> ustr \<Rightarrow> news_item list" where
  "search_news w query =
     (case gnews_get w (sanitize_query query) of
        Reply status articles \<Rightarrow>
          (if status = 200 then (case articles of None \<Rightarrow> [] | Some a \<Rightarrow> a) else [])
      | Failed e \<Rightarrow> [])"

text \<open>
  A request to the aggregator that failed: an exception, or a status outside 200 to 299.
\<close>

fun aggregator_failed :: "http_reply \<Rightarrow> bool" where
  "aggregator_failed (Failed e) = True"
| "aggregator_failed (Reply status articles) = (status < 200 \<or> 299 < status)"

subsection \<open>GPTService\<close>

definition required_fields :: "string list" where
  "required_fields = [''title'', ''category'', ''excerpt'', ''content'', ''seo_description'']"

text \<open>
  \<open>generate_article\<close>: an exception of the request is raised again; a JSON object that
  lacks a required field raises \<open>ValueError\<close>.
\<close>

definition generate_article :: "world \<Rightarrow> news_item list \<Rightarrow> py_exception + article" where
  "generate_article w sources =
     (case gpt_reply w sources of
        Inl e \<Rightarrow> Inl e
      | Inr article_data \<Rightarrow>
          (if \<not> list_all (\<lambda>field. field \<in> fst ` set article_data) required_fields
           then Inl (ValueError (ascii ''Missing required fields in GPT response''))
           else
             (case (map_of article_data ''title'', map_of article_data ''category'',
                    map_of article_data ''excerpt'', map_of article_data ''content'',
                    map_of article_data ''seo_description'') of
                (Some t, Some c, Some e, Some b, Some d) \<Rightarrow>
                  Inr \<lparr>title = t, category = c, excerpt = e, content = b,
                       seo_description = d, category_id = None\<rparr>
              | _ \<Rightarrow> Inl (ValueError (ascii ''Missing required fields in GPT response'')))))"

section \<open>Running with exceptions and a record of the calls\<close>

text \<open>
  A step of a coroutine takes the run (database and calls made so far) and gives the run
  after it together with its value or the exception it raised. \<open>and_then\<close> is
  sequencing: an exception skips the rest; \<open>try_except\<close> is \<open>try: \<dots> except Exception\<close>.
\<close>

type_synonym 'a step = "run \<Rightarrow> (py_exception + 'a) \<times> run"

definition ret :: "'a \<Rightarrow> 'a step" where
  "ret x r = (Inr x, r)"

definition lift :: "py_exception + 'a \<Rightarrow> 'a step" where
  "lift x r = (x, r)"

definition and_then :: "'a step \<Rightarrow> ('a \<Rightarrow> 'b step) \<Rightarrow> 'b step" where
  "and_then m f r = (case m r of (Inl e, r') \<Rightarrow> (Inl e, r') | (Inr x, r') \<Rightarrow> f x r')"

definition try_except :: "'a step \<Rightarrow> (py_exception \<Rightarrow> 'a step) \<Rightarrow> 'a step" where
  "try_except m h r = (case m r of (Inl e, r') \<Rightarrow> h e r' | (Inr x, r') \<Rightarrow> (Inr x, r'))"

definition db_read :: "(database \<Rightarrow> 'a) \<Rightarrow> 'a step" where
  "db_read f r = (Inr (f (db r)), r)"

definition db_write :: "(database \<Rightarrow> database) \<Rightarrow> unit step" where
  "db_write f r = (Inr (), r\<lparr>db := f (db r)\<rparr>)"

definition db_settings :: "int \<Rightarrow> user_settings_row step" where
  "db_settings user_id r =
     (case get_user_settings user_id (db r) of (row, d) \<Rightarrow> (Inr row, r\<lparr>db := d\<rparr>))"

definition db_add_fingerprint :: "ustr \<Rightarrow> unit step" where
  "db_add_fingerprint t r =
     (case add_article_fingerprint t (article_fingerprints (db r)) of
        Inl e \<Rightarrow> (Inl e, r)
      | Inr fps \<Rightarrow> (Inr (), r\<lparr>db := (db r)\<lparr>article_fingerprints := fps\<rparr>\<rparr>))"

definition called :: "call \<Rightarrow> run \<Rightarrow> run" where
  "called c r = r\<lparr>calls := calls r @ [c]\<rparr>"

definition call_search :: "world \<Rightarrow> ustr \<Rightarrow> news_item list step" where
  "call_search w query r = (Inr (search_news w query), called (GNews_search (sanitize_query query)) r)"

definition call_gpt :: "world \<Rightarrow> news_item list \<Rightarrow> article step" where
  "call_gpt w sources r = (generate_article w sources, called GPT_generate r)"

definition call_upload :: "world \<Rightarrow> ustr \<Rightarrow> int step" where
  "call_upload w url r =
     (wp_upload w url, called (WP_upload_image url (is_ok (wp_upload w url))) r)"

definition call_create :: "world \<Rightarrow> article \<Rightarrow> int option \<Rightarrow> (int \<times> ustr) step" where
  "call_create w a featured_media_id r =
     (wp_create w a featured_media_id,
      called (WP_create_post (title a) (is_ok (wp_create w a featured_media_id))) r)"

definition call_send :: "world \<Rightarrow> ustr \<Rightarrow> int step" where
  "call_send w text r = (tg_send w text, called (TG_channel_send text (is_ok (tg_send w text))) r)"

definition notify :: "world \<Rightarrow> int \<Rightarrow> notice \<Rightarrow> unit step" where
  "notify w user_id n r =
     (case tg_notify w user_id n of
        None \<Rightarrow> (Inr (), called (TG_notify user_id n True) r)
      | Some e \<Rightarrow> (Inl e, called (TG_notify user_id n False) r))"

section \<open>Publication\<close>

text \<open>
  The text sent to the channel: the converted body, the link to the post on the site when
  there is one, and the footer with the site's address \<open>Config.WP_SITE_URL\<close>.
\<close>

definition read_more :: ustr where
  "read_more =
     [0xA, 0xA, 0x1F4F0, 0x20, 0x3C, 0x62, 0x3E, 0x427, 0x438, 0x442, 0x430, 0x442, 0x438, 0x20, 0x43F, 0x43E, 0x432, 0x43D, 0x456, 0x441, 0x442, 0x44E, 0x3A, 0x3C, 0x2F, 0x62, 0x3E, 0x20]"

definition channel_text :: "ustr \<Rightarrow> ustr \<Rightarrow> ustr option \<Rightarrow> ustr" where
  "channel_text site_url body wp_url =
     html_to_telegram body 3800
     @ (case wp_url of
          None \<Rightarrow> []
        | Some u \<Rightarrow> (if u = [] then [] else read_more @ u @ [0x0A, 0x0A]))
     @ [0x3C, 0x62, 0x3E, 0x414, 0x436, 0x435, 0x440, 0x435, 0x43B, 0x43E, 0x3A, 0x3C, 0x2F, 0x62, 0x3E, 0x20, 0x3C, 0x61, 0x20, 0x68, 0x72, 0x65, 0x66, 0x3D, 0x27]
     @ site_url
     @ [0x27, 0x3E, 0x421, 0x43F, 0x456, 0x43B, 0x44C, 0x43D, 0x43E, 0x3C, 0x2F, 0x61, 0x3E]"

text \<open>
  The cover image: \<open>try: upload_image(\<dots>) except Exception: logger.warning(\<dots>)\<close>,
  only when there is an image.
\<close>

definition upload_cover :: "world \<Rightarrow> ustr option \<Rightarrow> int option step" where
  "upload_cover w img =
     (case img of
        None \<Rightarrow> ret None
      | Some url \<Rightarrow>
          (if url = [] then ret None
           else try_except (and_then (call_upload w url) (\<lambda>i. ret (Some i))) (\<lambda>e. ret None)))"

text \<open>The site phase and the channel phase, each only when requested.\<close>

definition site_phase ::
  "world \<Rightarrow> bool \<Rightarrow> article \<Rightarrow> int option \<Rightarrow> (int option \<times> ustr option) step" where
  "site_phase w to_wp a featured_media_id =
     (if to_wp then
        and_then (call_create w a featured_media_id) (\<lambda>(post_id, link). ret (Some post_id, Some link))
      else ret (None, None))"

definition channel_phase :: "world \<Rightarrow> ustr \<Rightarrow> bool \<Rightarrow> article \<Rightarrow> ustr option \<Rightarrow> int option step" where
  "channel_phase w site_url to_tg a wp_url =
     (if to_tg then
        and_then (call_send w (channel_text site_url (content a) wp_url)) (\<lambda>message_id. ret (Some message_id))
      else ret None)"

section \<open>AutoPublishScheduler.auto_publish_task\<close>

definition category_enabled :: "int list \<Rightarrow> int option \<Rightarrow> bool" where
  "category_enabled enabled_cats cid \<longleftrightarrow>
     enabled_cats = [] \<or> (case cid of None \<Rightarrow> False | Some i \<Rightarrow> i \<in> set enabled_cats)"

text \<open>From the upload of the cover image to the success entry of the log.\<close>

definition auto_publish_phase ::
  "world \<Rightarrow> ustr \<Rightarrow> int \<Rightarrow> user_settings_row \<Rightarrow> news_item \<Rightarrow> article \<Rightarrow> unit step" where
  "auto_publish_phase w site_url user_id settings main_news a =
     and_then (upload_cover w (n_image main_news)) (\<lambda>featured_media_id.
     and_then (site_phase w (auto_publish_to_wp settings) a featured_media_id) (\<lambda>(wp_post_id, wp_url).
     and_then (channel_phase w site_url (auto_publish_to_tg settings) a wp_url) (\<lambda>tg_message_id.
     and_then (db_write (save_published_article user_id wp_post_id tg_message_id (title a) wp_url
                 (category_id a) (auto_publish_to_wp settings) (auto_publish_to_tg settings))) (\<lambda>_.
     and_then (db_add_fingerprint (title a)) (\<lambda>_.
     and_then (db_write (update_last_publish_time (now w) user_id)) (\<lambda>_.
     and_then (notify w user_id (Auto_published (title a) wp_url tg_message_id)) (\<lambda>_.
     db_write (log_action user_id ''auto_publish'' ''success''
                 (ascii ''Auto-published: '' @ title a) (Some (wp_post_id, wp_url))))))))))"

text \<open>The query for the sources, from the title of the first news item.\<close>

definition source_query :: "news_item \<Rightarrow> ustr" where
  "source_query main_news =
     extract_keywords_from_title (case n_title main_news of None \<Rightarrow> [] | Some t \<Rightarrow> t) 5"

text \<open>The body of the \<open>try\<close> block.\<close>

definition auto_publish_body :: "world \<Rightarrow> ustr \<Rightarrow> int \<Rightarrow> unit step" where
  "auto_publish_body w site_url user_id =
     and_then (db_settings user_id) (\<lambda>settings.
       if \<not> auto_publish_enabled settings then ret ()
       else
         and_then (call_search w default_topic) (\<lambda>news.
           case news of
             [] \<Rightarrow> notify w user_id No_news
           | main_news # _ \<Rightarrow>
               and_then (call_search w (source_query main_news)) (\<lambda>sources.
               and_then (call_gpt w sources) (\<lambda>a.
               and_then (db_read (\<lambda>d. get_category_id_by_name d (category a))) (\<lambda>cid.
                 if \<not> category_enabled (enabled_categories settings) cid
                 then notify w user_id (Category_skipped (category a))
                 else
                   and_then (\<lambda>r. lift (check_duplicate (title a) (article_fingerprints (db r))) r)
                     (\<lambda>dup.
                        if dup then notify w user_id Duplicate_found
                        else auto_publish_phase w site_url user_id settings main_news
                               (a\<lparr>category_id := cid\<rparr>)))))))"

text \<open>
  The task: the body, and the handler that writes the error entry and tells the operator.
  The result is the exception that leaves the task, if any, and the run.
\<close>

definition auto_publish_task ::
  "world \<Rightarrow> ustr \<Rightarrow> int \<Rightarrow> database \<Rightarrow> py_exception option \<times> run" where
  "auto_publish_task w site_url user_id d =
     (case try_except (auto_publish_body w site_url user_id)
             (\<lambda>e. and_then
                     (db_write (log_action user_id ''auto_publish'' ''error'' (str_of_exception e) None))
                     (\<lambda>_. notify w user_id (Auto_error (str_of_exception e))))
             \<lparr>db = d, calls = []\<rparr> of
        (Inl e, r) \<Rightarrow> (Some e, r)
      | (Inr _, r) \<Rightarrow> (None, r))"

section \<open>The handler of the manual publication\<close>

text \<open>
  \<open>publish_handler\<close>: \<open>publish_type\<close> is the second part of the callback data
  (\<open>wp\<close>, \<open>tg\<close> or \<open>both\<close>); the article, the image and the sources come from the
  conversation state.
\<close>

definition publish_body ::
  "world \<Rightarrow> ustr \<Rightarrow> int \<Rightarrow> string \<Rightarrow> article \<Rightarrow> ustr option \<Rightarrow> unit step" where
  "publish_body w site_url user_id publish_type a selected_image =
     and_then
       (if publish_type \<in> {''wp'', ''both''} then
          and_then (notify w user_id (Progress ''uploading image'')) (\<lambda>_.
          and_then (upload_cover w selected_image) (\<lambda>featured_media_id.
          and_then (notify w user_id (Progress ''creating post'')) (\<lambda>_.
          site_phase w True a featured_media_id)))
        else ret (None, None)) (\<lambda>(wp_post_id, wp_url).
     and_then
       (if publish_type \<in> {''tg'', ''both''} then
          and_then (notify w user_id (Progress ''publishing to telegram'')) (\<lambda>_.
          channel_phase w site_url True a wp_url)
        else ret None) (\<lambda>tg_message_id.
     and_then (notify w user_id (Progress ''saving'')) (\<lambda>_.
     and_then (db_write (save_published_article user_id wp_post_id tg_message_id (title a) wp_url
                 (category_id a) (publish_type \<in> {''wp'', ''both''})
                 (publish_type \<in> {''tg'', ''both''}))) (\<lambda>_.
     and_then (db_add_fingerprint (title a)) (\<lambda>_.
     and_then (db_write (log_action user_id ''publish'' ''success''
                 (ascii ''Published: '' @ title a) (Some (wp_post_id, None)))) (\<lambda>_.
     notify w user_id (Published (title a) wp_url tg_message_id)))))))"

definition publish_handler ::
  "world \<Rightarrow> ustr \<Rightarrow> int \<Rightarrow> string \<Rightarrow> article option \<Rightarrow> ustr option \<Rightarrow> database \<Rightarrow>
   py_exception option \<times> run" where
  "publish_handler w site_url user_id publish_type generated_article selected_image d =
     (case (case generated_article of
              None \<Rightarrow> notify w user_id Article_not_found
            | Some a \<Rightarrow>
                and_then (notify w user_id (Progress ''publishing'')) (\<lambda>_.
                try_except (publish_body w site_url user_id publish_type a selected_image)
                  (\<lambda>e. and_then
                          (db_write (log_action user_id ''publish'' ''error'' (str_of_exception e) None))
                          (\<lambda>_. notify w user_id (Publish_error (str_of_exception e))))))
             \<lparr>db = d, calls = []\<rparr> of
        (Inl e, r) \<Rightarrow> (Some e, r)
      | (Inr _, r) \<Rightarrow> (None, r))"

section \<open>Sample inputs\<close>

text \<open>
  A world in which every service answers, and a database with one operator (number 7)
  and one category; the closed instances of the theorems below are taken at these.
\<close>

definition sample_item :: news_item where
  "sample_item =
     \<lparr>n_title = Some (ascii ''Economy, grows! (by 5%)''), n_description = None, n_url = None,
      n_image = None\<rparr>"

definition sample_reply :: "(string \<times> ustr) list" where
  "sample_reply =
     [(''title'', ascii ''abc''), (''category'', ascii ''World''), (''excerpt'', ascii ''Short''),
      (''content'', ascii ''<p>Body</p>''), (''seo_description'', ascii ''Seo'')]"

definition sample_article :: article where
  "sample_article =
     \<lparr>title = ascii ''abc'', category = ascii ''World'', excerpt = ascii ''Short'',
      content = ascii ''<p>Body</p>'', seo_description = ascii ''Seo'', category_id = Some 3\<rparr>"

definition sample_world :: world where
  "sample_world =
     \<lparr>gnews_get = (\<lambda>q. Reply 200 (Some [sample_item])),
      gpt_reply = (\<lambda>sources. Inr sample_reply),
      wp_upload = (\<lambda>url. Inr 1),
      wp_create = (\<lambda>a m. Inr (10, ascii ''https://site/p10'')),
      tg_send = (\<lambda>t. Inr 5),
      tg_notify = (\<lambda>u n. None),
      now = 1000\<rparr>"

text \<open>The same world with the Telegram channel refusing every message.\<close>

definition channel_down_world :: world where
  "channel_down_world = sample_world\<lparr>tg_send := (\<lambda>t. Inl (External (ascii ''chat not found'')))\<rparr>"

text \<open>The same world with a rewriter that answers with a title only.\<close>

definition incomplete_reply_world :: world where
  "incomplete_reply_world = sample_world\<lparr>gpt_reply := (\<lambda>sources. Inr [(''title'', ascii ''abc'')])\<rparr>"

text \<open>The same world with an aggregator that answers every request with status 500.\<close>

definition aggregator_down_world :: world where
  "aggregator_down_world = sample_world\<lparr>gnews_get := (\<lambda>q. Reply 500 None)\<rparr>"

text \<open>
  The same world with an aggregator that answers the request for the default topic and
  answers every other request with status 500.
\<close>

definition sources_down_world :: world where
  "sources_down_world =
     sample_world\<lparr>gnews_get :=
       (\<lambda>q. if q = default_topic then Reply 200 (Some [sample_item]) else Reply 500 None)\<rparr>"

definition sample_row :: "bool \<Rightarrow> bool \<Rightarrow> bool \<Rightarrow> int list \<Rightarrow> user_settings_row" where
  "sample_row enabled to_wp to_tg cats =
     \<lparr>auto_publish_enabled = enabled, auto_publish_interval = 180, auto_publish_to_wp = to_wp,
      auto_publish_to_tg = to_tg, enabled_categories = cats, last_publish_time = None\<rparr>"

definition sample_db :: "user_settings_row \<Rightarrow> fingerprints \<Rightarrow> database" where
  "sample_db row fps =
     \<lparr>wp_categories = [(ascii ''World'', 3)], published_articles = [],
      article_fingerprints = fps, user_settings = [(7, row)], logs = []\<rparr>"

section \<open>Properties of the fingerprint store\<close>

lemma lower_lookup_scalar:
  assumes "list_all (\<lambda>(lo, hi, step, delta).
              (0 \<le> lo + delta \<and> hi + delta < 0xD800) \<or>
              (0xE000 \<le> lo + delta \<and> hi + delta \<le> 0x10FFFF)) tbl"
    and "is_scalar c"
  shows "is_scalar (lower_lookup tbl c)"
  using assms by (induction tbl c rule: lower_lookup.induct) (auto simp: is_scalar_def)

lemma lower_table_scalar:
  "list_all (\<lambda>(lo, hi, step, delta).
      (0 \<le> lo + delta \<and> hi + delta < 0xD800) \<or>
      (0xE000 \<le> lo + delta \<and> hi + delta \<le> 0x10FFFF)) lower_table"
  by (simp add: lower_table_def)

lemma scalar_lower_from:
  "list_all is_scalar T \<Longrightarrow> list_all is_scalar (lower_from seen T)"
proof (induction T arbitrary: seen)
  case Nil
  then show ?case by simp
next
  case (Cons c cs)
  have "is_scalar 0x3C2" "is_scalar 0x3C3" "is_scalar 0x69" "is_scalar 0x307"
    by (simp_all add: is_scalar_def)
  moreover have "is_scalar (lower_lookup lower_table c)"
    using Cons.prems by (simp add: lower_lookup_scalar [OF lower_table_scalar])
  moreover have "list_all is_scalar (lower_from (c # seen) cs)"
    using Cons by simp
  ultimately show ?case by simp
qed

lemma scalar_py_lower: "list_all is_scalar T \<Longrightarrow> list_all is_scalar (py_lower T)"
  by (simp add: py_lower_def scalar_lower_from)

lemma encode_scalar: "list_all is_scalar s \<Longrightarrow> encode s = Inr (concat (map utf8_cp s))"
proof -
  assume "list_all is_scalar s"
  then have tw: "takeWhile is_scalar s = s"
    by (simp add: list_all_iff)
  show ?thesis
    unfolding encode_def Let_def tw by simp
qed

lemma title_hash_scalar:
  "list_all is_scalar T \<Longrightarrow>
   title_hash T = Inr (hexdigest (md5 (concat (map utf8_cp (py_lower T)))))"
  by (simp add: title_hash_def encode_scalar scalar_py_lower)

lemma title_hash_lower_eq: "py_lower T1 = py_lower T2 \<Longrightarrow> title_hash T1 = title_hash T2"
  by (simp add: title_hash_def)

lemma title_hash_abc: "title_hash (ascii ''abc'') = Inr ''900150983cd24fb0d6963f7d28e17f72''"
  by code_simp

lemma title_hash_sp_abc: "title_hash (ascii '' abc'') = Inr ''12cfaf7fd98f33be8038b3d56c18f061''"
  by code_simp

lemma title_hash_upper_abc: "title_hash (ascii ''ABC'') = Inr ''900150983cd24fb0d6963f7d28e17f72''"
  by code_simp

lemma title_hash_surrogate: "title_hash [0xD800] = Inl (UnicodeEncodeError 0xD800 0 1)"
  by code_simp

lemma add_hashes:
  assumes "add_article_fingerprint t fps = Inr fps'"
  shows "\<exists>h. title_hash t = Inr h \<and> fst ` set fps' = insert h (fst ` set fps)"
  using assms
  by (auto simp: add_article_fingerprint_def insert_fingerprint_def
      split: sum.splits if_splits)

lemma add_all_hashes:
  "add_all Ts fps = Inr fps' \<Longrightarrow>
   fst ` set fps' = fst ` set fps \<union> {h. \<exists>t\<in>set Ts. title_hash t = Inr h}"
proof (induction Ts arbitrary: fps)
  case Nil
  then show ?case by simp
next
  case (Cons t ts)
  from Cons.prems obtain f1 where a: "add_article_fingerprint t fps = Inr f1"
    and b: "add_all ts f1 = Inr fps'"
    by (auto split: sum.splits)
  from add_hashes [OF a] obtain h where h: "title_hash t = Inr h"
    and f: "fst ` set f1 = insert h (fst ` set fps)"
    by blast
  from Cons.IH [OF b] f h show ?case
    by auto
qed

lemma check_after_adds:
  assumes "title_hash T = Inr h" and "add_all Ts [] = Inr fps0"
  shows "check_duplicate T fps0 = Inr (list_ex (\<lambda>t. title_hash t = Inr h) Ts)"
  using add_all_hashes [OF assms(2)] assms(1)
  by (auto simp: check_duplicate_def list_ex_iff)

text \<open>
  C3, as stated, fails. For the title that is one lone surrogate (\<open>json.loads\<close> delivers
  such strings) \<open>check_duplicate\<close> and \<open>add_article_fingerprint\<close> raise
  \<open>UnicodeEncodeError\<close>; for the title that is the character U+0000 the database refuses
  the insert. And \<open>check_duplicate "abc"\<close> is true before any \<open>add("abc")\<close>, once
  \<open>"ABC"\<close> has been added.
\<close>

theorem fingerprint_every_title_counterexample:
  "check_duplicate [0xD800] [] = Inl (UnicodeEncodeError 0xD800 0 1) \<and>
   add_article_fingerprint [0xD800] [] = Inl (UnicodeEncodeError 0xD800 0 1) \<and>
   add_article_fingerprint [0] [] = Inl CharacterNotInRepertoireError \<and>
   add_article_fingerprint (ascii ''ABC'') []
     = Inr [(''900150983cd24fb0d6963f7d28e17f72'', ascii ''ABC'')] \<and>
   check_duplicate (ascii ''abc'') [(''900150983cd24fb0d6963f7d28e17f72'', ascii ''ABC'')]
     = Inr True"
proof -
  have z: "list_all is_scalar [0]"
    by (simp add: is_scalar_def)
  have "add_article_fingerprint [0] [] = Inl CharacterNotInRepertoireError"
    by (simp add: add_article_fingerprint_def title_hash_scalar [OF z])
  moreover have "0 \<notin> set (ascii ''ABC'')"
    by (simp add: ascii_def)
  ultimately show ?thesis
    by (simp add: check_duplicate_def add_article_fingerprint_def insert_fingerprint_def
        title_hash_surrogate title_hash_abc title_hash_upper_abc)
qed

text \<open>
  C3, amended. For every title \<open>T\<close> that is text the store accepts (no lone surrogate and no
  U+0000): \<open>check_duplicate T\<close> is false on the empty store and on every store reached from
  it by adding titles with other digests (after the adds \<open>Ts\<close> it is true exactly when one
  of them has the digest of \<open>T\<close>); \<open>add_article_fingerprint T\<close> raises nothing on any
  store, leaves the store untouched when the digest of \<open>T\<close> is already there and appends
  one row otherwise; afterwards \<open>check_duplicate T\<close> is true, a second
  \<open>add_article_fingerprint T\<close> changes nothing, and \<open>check_duplicate T\<close> is still true.
\<close>

theorem fingerprint_insert_idempotent:
  assumes "list_all is_scalar T" and "0 \<notin> set T"
  shows "check_duplicate T [] = Inr False \<and>
         (\<exists>h fps1. title_hash T = Inr h \<and>
            (case add_all Ts [] of
               Inl e \<Rightarrow> True
             | Inr fps0 \<Rightarrow>
                 check_duplicate T fps0 = Inr (list_ex (\<lambda>t. title_hash t = Inr h) Ts)) \<and>
            check_duplicate T fps = Inr (h \<in> fst ` set fps) \<and>
            add_article_fingerprint T fps = Inr fps1 \<and>
            fps1 = (if check_duplicate T fps = Inr True then fps else fps @ [(h, T)]) \<and>
            check_duplicate T fps1 = Inr True \<and>
            add_article_fingerprint T fps1 = Inr fps1 \<and>
            check_duplicate T fps1 = Inr True)"
proof -
  let ?h = "hexdigest (md5 (concat (map utf8_cp (py_lower T))))"
  note h = title_hash_scalar [OF assms(1)]
  have a: "case add_all Ts [] of
               Inl e \<Rightarrow> True
             | Inr fps0 \<Rightarrow>
                 check_duplicate T fps0 = Inr (list_ex (\<lambda>t. title_hash t = Inr ?h) Ts)"
    using check_after_adds [OF h] by (cases "add_all Ts []") simp_all
  have b: "check_duplicate T [] = Inr False"
    "check_duplicate T fps = Inr (?h \<in> fst ` set fps)"
    using h by (simp_all add: check_duplicate_def)
  have c: "add_article_fingerprint T fps
           = Inr (if check_duplicate T fps = Inr True then fps else fps @ [(?h, T)])"
    using h assms(2)
    by (simp add: add_article_fingerprint_def insert_fingerprint_def check_duplicate_def)
  have d: "check_duplicate T (if check_duplicate T fps = Inr True then fps else fps @ [(?h, T)])
           = Inr True"
    using h by (auto simp: check_duplicate_def)
  have e: "add_article_fingerprint T
             (if check_duplicate T fps = Inr True then fps else fps @ [(?h, T)])
           = Inr (if check_duplicate T fps = Inr True then fps else fps @ [(?h, T)])"
    using h assms(2)
    by (auto simp: add_article_fingerprint_def insert_fingerprint_def check_duplicate_def)
  from h a b c d e show ?thesis by blast
qed

theorem fingerprint_insert_idempotent_witness:
  "list_all is_scalar (ascii ''abc'') \<and> 0 \<notin> set (ascii ''abc'') \<and>
   check_duplicate (ascii ''abc'') [] = Inr False \<and>
   (\<exists>fps1. add_article_fingerprint (ascii ''abc'') [] = Inr fps1 \<and>
      check_duplicate (ascii ''abc'') fps1 = Inr True \<and>
      add_article_fingerprint (ascii ''abc'') fps1 = Inr fps1)"
proof -
  have h: "list_all is_scalar (ascii ''abc'')"
    by (simp add: ascii_def is_scalar_def)
  have z: "0 \<notin> set (ascii ''abc'')"
    by (simp add: ascii_def)
  from fingerprint_insert_idempotent [OF h z, of "[]" "[]"] h z show ?thesis
    by blast
qed

text \<open>
  C4, as stated, fails: the titles \<open>"abc"\<close> and \<open>" abc"\<close> are identical after
  lower-casing and trimming, yet after \<open>add_article_fingerprint "abc"\<close> on the empty store
  \<open>check_duplicate " abc"\<close> is false. The title is lower-cased, never trimmed. And for a
  title that is a lone surrogate \<open>add_article_fingerprint\<close> raises.
\<close>

theorem fingerprint_trim_counterexample:
  "py_strip (py_lower (ascii '' abc'')) = py_strip (py_lower (ascii ''abc'')) \<and>
   add_article_fingerprint (ascii ''abc'') []
     = Inr [(''900150983cd24fb0d6963f7d28e17f72'', ascii ''abc'')] \<and>
   check_duplicate (ascii '' abc'') [(''900150983cd24fb0d6963f7d28e17f72'', ascii ''abc'')]
     = Inr False \<and>
   add_article_fingerprint [0xD800] [] = Inl (UnicodeEncodeError 0xD800 0 1)"
proof -
  have "py_strip (py_lower (ascii '' abc'')) = py_strip (py_lower (ascii ''abc''))"
    by code_simp
  moreover have "0 \<notin> set (ascii ''abc'')"
    by (simp add: ascii_def)
  ultimately show ?thesis
    by (simp add: add_article_fingerprint_def check_duplicate_def insert_fingerprint_def
        title_hash_abc title_hash_sp_abc title_hash_surrogate)
qed

text \<open>
  C4, amended. For all titles \<open>T1\<close> and \<open>T2\<close> that are identical after lower-casing
  (surrounding white space is significant), where \<open>T1\<close> is text the store accepts (no lone
  surrogate and no U+0000), \<open>add_article_fingerprint T1\<close> followed by
  \<open>check_duplicate T2\<close> returns true, on every store.
\<close>

theorem fingerprint_case_insensitive:
  assumes "py_lower T1 = py_lower T2" and "list_all is_scalar T1" and "0 \<notin> set T1"
  shows "\<exists>fps1. add_article_fingerprint T1 fps = Inr fps1 \<and> check_duplicate T2 fps1 = Inr True"
  using title_hash_scalar [OF assms(2)] title_hash_lower_eq [OF assms(1)] assms(3)
  by (auto simp: check_duplicate_def add_article_fingerprint_def insert_fingerprint_def)

theorem fingerprint_case_insensitive_witness:
  "py_lower [0x10C, 0x42, 0x415] = py_lower [0x10D, 0x62, 0x435] \<and>
   list_all is_scalar [0x10C, 0x42, 0x415] \<and> 0 \<notin> set [0x10C, 0x42, 0x415 :: int] \<and>
   (\<exists>fps1. add_article_fingerprint [0x10C, 0x42, 0x415] [] = Inr fps1 \<and>
      check_duplicate [0x10D, 0x62, 0x435] fps1 = Inr True)"
proof -
  have a: "py_lower [0x10C, 0x42, 0x415] = py_lower [0x10D, 0x62, 0x435]"
    by code_simp
  have b: "list_all is_scalar [0x10C, 0x42, 0x415]"
    by (simp add: is_scalar_def)
  have c: "0 \<notin> set [0x10C, 0x42, 0x415 :: int]"
    by simp
  from fingerprint_case_insensitive [OF a b c, of "[]"] a b c show ?thesis
    by blast
qed

section \<open>Properties of the text helpers\<close>

lemma split_on_map_replace:
  assumes "sep sp"
  shows "split_on sep w (map (\<lambda>c. if S c then sp else c) s) = split_on (\<lambda>c. S c \<or> sep c) w s"
  using assms by (induction s arbitrary: w) auto

lemma split_on_words:
  assumes "\<forall>c\<in>set w. \<not> sep c"
  shows "\<forall>x\<in>set (split_on sep w s). x \<noteq> [] \<and> (\<forall>c\<in>set x. \<not> sep c)"
  using assms
proof (induction s arbitrary: w)
  case Nil
  then show ?case by simp
next
  case (Cons a s)
  have e: "\<forall>x\<in>set (split_on sep [] s). x \<noteq> [] \<and> (\<forall>c\<in>set x. \<not> sep c)"
    by (rule Cons.IH) simp
  show ?case
  proof (cases "sep a")
    case True
    with e Cons.prems show ?thesis by auto
  next
    case False
    with Cons.prems have "\<forall>c\<in>set (w @ [a]). \<not> sep c" by simp
    then have "\<forall>x\<in>set (split_on sep (w @ [a]) s). x \<noteq> [] \<and> (\<forall>c\<in>set x. \<not> sep c)"
      by (rule Cons.IH)
    with False show ?thesis by simp
  qed
qed

lemma set_py_join: "set (py_join sep ws) \<subseteq> set sep \<union> \<Union> (set ` set ws)"
  by (induction sep ws rule: py_join.induct) auto

lemma py_join_Nil_iff: "\<forall>x\<in>set ws. x \<noteq> [] \<Longrightarrow> py_join sep ws = [] \<longleftrightarrow> ws = []"
  by (induction sep ws rule: py_join.induct) auto

lemma hd_py_join: "ws \<noteq> [] \<Longrightarrow> hd ws \<noteq> [] \<Longrightarrow> hd (py_join sep ws) = hd (hd ws)"
  by (induction sep ws rule: py_join.induct) auto

lemma last_py_join:
  "ws \<noteq> [] \<Longrightarrow> \<forall>x\<in>set ws. x \<noteq> [] \<Longrightarrow> last (py_join sep ws) = last (last ws)"
proof (induction sep ws rule: py_join.induct)
  case (3 sep w v va)
  then have "py_join sep (v # va) \<noteq> []"
    by (simp add: py_join_Nil_iff)
  with 3 show ?case by simp
qed simp_all

lemma py_strip_id:
  assumes "s \<noteq> []" "\<not> py_isspace (hd s)" "\<not> py_isspace (last s)"
  shows "py_strip s = s"
proof -
  have a: "dropWhile py_isspace s = s"
    using assms by (cases s) auto
  have "rev s \<noteq> []" "\<not> py_isspace (hd (rev s))"
    using assms by (simp_all add: hd_rev)
  then have "dropWhile py_isspace (rev s) = rev s"
    by (cases "rev s") auto
  with a show ?thesis by (simp add: py_strip_def)
qed

lemma py_strip_join_words:
  assumes "\<forall>x\<in>set ws. x \<noteq> [] \<and> (\<forall>c\<in>set x. \<not> py_isspace c)"
  shows "py_strip (py_join sep ws) = py_join sep ws"
proof (cases "ws = []")
  case True
  then show ?thesis by (simp add: py_strip_def)
next
  case False
  then have h: "hd ws \<in> set ws" and l: "last ws \<in> set ws" by simp_all
  from assms h have h1: "hd ws \<noteq> []" and h2: "\<not> py_isspace (hd (hd ws))"
    by (auto simp: hd_in_set)
  from assms l have l1: "last ws \<noteq> []" and l2: "\<not> py_isspace (last (last ws))"
    by (auto simp: last_in_set)
  from assms have l3: "\<forall>x\<in>set ws. x \<noteq> []" by simp
  have ne: "py_join sep ws \<noteq> []"
    using False assms by (simp add: py_join_Nil_iff)
  show ?thesis
    by (rule py_strip_id [OF ne])
       (simp_all add: hd_py_join [OF False h1] last_py_join [OF False l3] h2 l2)
qed

lemma space_is_space: "py_isspace 0x20"
  by (simp add: py_isspace_def)

lemma space_not_special: "\<not> is_special 0x20"
  by (simp add: is_special_def special_chars_def)



lemma token_clean:
  assumes "x \<in> set (split_on (\<lambda>c. is_special c \<or> py_isspace c) [] T)"
  shows "x \<noteq> []" and "\<And>c. c \<in> set x \<Longrightarrow> \<not> is_special c" and "\<And>c. c \<in> set x \<Longrightarrow> \<not> py_isspace c"
proof -
  have e: "\<forall>c\<in>set ([]::ustr). \<not> (is_special c \<or> py_isspace c)"
    by simp
  note w = split_on_words [of "[]" "\<lambda>c. is_special c \<or> py_isspace c" T, OF e]
  from w assms show "x \<noteq> []" by blast
  from w assms show "\<And>c. c \<in> set x \<Longrightarrow> \<not> is_special c" by blast
  from w assms show "\<And>c. c \<in> set x \<Longrightarrow> \<not> py_isspace c" by blast
qed

lemma strip_significant:
  "py_strip (py_join sep (take n (filter P (split_on (\<lambda>c. is_special c \<or> py_isspace c) [] T))))
   = py_join sep (take n (filter P (split_on (\<lambda>c. is_special c \<or> py_isspace c) [] T)))"
proof (rule py_strip_join_words, intro ballI conjI)
  fix x
  assume "x \<in> set (take n (filter P (split_on (\<lambda>c. is_special c \<or> py_isspace c) [] T)))"
  then have "x \<in> set (filter P (split_on (\<lambda>c. is_special c \<or> py_isspace c) [] T))"
    by (rule in_set_takeD)
  then have x: "x \<in> set (split_on (\<lambda>c. is_special c \<or> py_isspace c) [] T)"
    by simp
  from token_clean(1) [OF x] show "x \<noteq> []" .
  fix c assume "c \<in> set x"
  with token_clean(3) [OF x] show "\<not> py_isspace c" .
qed


lemma clean_tokens: 
  "py_split (map (\<lambda>c. if is_special c then 0x20 else c) T)
   = split_on (\<lambda>c. is_special c \<or> py_isspace c) [] T"
  using split_on_map_replace [of py_isspace "0x20" "[]" is_special T] space_is_space
  by (simp add: py_split_def)

lemma extract_refines_spec: "extract_keywords_from_title T 5 = derived_query_spec T"
proof (cases "T = []")
  case True
  then show ?thesis
    by (simp add: extract_keywords_from_title_def derived_query_spec_def)
next
  case False
  have nl: "(\<lambda>w::ustr. 2 < length w) = (\<lambda>w. \<not> length w \<le> 2)"
    by (simp add: not_le)
  have sl: "slice_to 5 xs = take 5 xs" for xs :: "ustr list"
    by (simp add: slice_to_def)
  show ?thesis
    unfolding extract_keywords_from_title_def derived_query_spec_def Let_def clean_tokens sl nl
      strip_significant
    using False by simp
qed

lemma derived_query_no_special: "set (derived_query_spec T) \<inter> set special_chars = {}"
proof -
  let ?ws = "take 5 (filter (\<lambda>w. \<not> length w \<le> 2)
                (split_on (\<lambda>c. is_special c \<or> py_isspace c) [] T))"
  have "\<not> is_special c" if "c \<in> set (py_join [0x20] ?ws)" for c
  proof -
    from that set_py_join [of "[0x20]" ?ws]
    consider "c = 0x20" | x where "x \<in> set ?ws" "c \<in> set x"
      by auto
    then show ?thesis
    proof cases
      case 1
      then show ?thesis using space_not_special by simp
    next
      case 2
      from 2(1) have "x \<in> set (filter (\<lambda>w. \<not> length w \<le> 2)
                (split_on (\<lambda>c. is_special c \<or> py_isspace c) [] T))"
        by (rule in_set_takeD)
      then have "x \<in> set (split_on (\<lambda>c. is_special c \<or> py_isspace c) [] T)"
        by simp
      from token_clean(2) [OF this 2(2)] show ?thesis .
    qed
  qed
  then have a: "set (py_join [0x20] ?ws) \<inter> set special_chars = {}"
    unfolding is_special_def by blast
  have b: "set default_topic \<inter> set special_chars = {}"
    by (simp add: default_topic_def special_chars_def)
  show ?thesis
    unfolding derived_query_spec_def Let_def using a b by (simp split: if_splits)
qed

text \<open>
  C8. For every seed title the derived query (with at most five words) is the one the
  specification describes: the title is cut at the special characters and at white space,
  tokens of at most two characters are discarded, the first five remaining tokens are
  joined by single spaces, and an empty or too short result gives the default topic. No
  special character occurs in the result. For the title of the example (nine Cyrillic
  letters, a comma, seven letters, an exclamation mark, and \<open>(xx 5%)\<close> with two
  letters) the result is the two long words separated by one space.
\<close>

theorem extract_keywords_refines_spec:
  "extract_keywords_from_title T 5 = derived_query_spec T \<and>
   set (extract_keywords_from_title T 5) \<inter> set special_chars = {} \<and>
   extract_keywords_from_title
     [0x415, 0x43A, 0x43E, 0x43D, 0x43E, 0x43C, 0x456, 0x43A, 0x430, 0x2C, 0x20, 0x437, 0x440,
      0x43E, 0x441, 0x442, 0x430, 0x454, 0x21, 0x20, 0x28, 0x43D, 0x430, 0x20, 0x35, 0x25, 0x29] 5
   = [0x415, 0x43A, 0x43E, 0x43D, 0x43E, 0x43C, 0x456, 0x43A, 0x430, 0x20, 0x437, 0x440,
      0x43E, 0x441, 0x442, 0x430, 0x454]"
proof -
  have "extract_keywords_from_title
     [0x415, 0x43A, 0x43E, 0x43D, 0x43E, 0x43C, 0x456, 0x43A, 0x430, 0x2C, 0x20, 0x437, 0x440,
      0x43E, 0x441, 0x442, 0x430, 0x454, 0x21, 0x20, 0x28, 0x43D, 0x430, 0x20, 0x35, 0x25, 0x29] 5
   = [0x415, 0x43A, 0x43E, 0x43D, 0x43E, 0x43C, 0x456, 0x43A, 0x430, 0x20, 0x437, 0x440,
      0x43E, 0x441, 0x442, 0x430, 0x454]"
    by code_simp
  then show ?thesis
    using extract_refines_spec [of T] derived_query_no_special [of T] by simp
qed

lemma markup_example:
  "telegram_markup (ascii ''<h2>Title</h2><p>Body</p><ul><li>A</li></ul>'')
   = ascii ''<b>Title</b>'' @ [0x0A, 0x0A] @ ascii ''Body'' @ [0x0A, 0x0A, 0x2022, 0x20, 0x41]"
  by code_simp

text \<open>
  C9. For the input \<open><h2>Title</h2><p>Body</p><ul><li>A</li></ul>\<close> the output has no
  \<open>h2\<close>, \<open>ul\<close> or \<open>li\<close> tag, has \<open>Title\<close> inside a \<open>b\<close> tag and a line that
  begins with the bullet and holds \<open>A\<close>. For every input and every cap of at least three
  characters the output is no longer than the cap; it is the converted text when that
  fits and otherwise its first \<open>max_length - 3\<close> characters followed by three dots.
\<close>

theorem html_to_telegram_example_and_cap:
  assumes "3 \<le> max_length"
  shows "html_to_telegram (ascii ''<h2>Title</h2><p>Body</p><ul><li>A</li></ul>'') 3800
           = ascii ''<b>Title</b>'' @ [0x0A, 0x0A] @ ascii ''Body'' @ [0x0A, 0x0A, 0x2022, 0x20, 0x41] \<and>
         \<not> occurs_in (ascii ''<h2'')
             (html_to_telegram (ascii ''<h2>Title</h2><p>Body</p><ul><li>A</li></ul>'') 3800) \<and>
         \<not> occurs_in (ascii ''</h2'')
             (html_to_telegram (ascii ''<h2>Title</h2><p>Body</p><ul><li>A</li></ul>'') 3800) \<and>
         \<not> occurs_in (ascii ''<ul'')
             (html_to_telegram (ascii ''<h2>Title</h2><p>Body</p><ul><li>A</li></ul>'') 3800) \<and>
         \<not> occurs_in (ascii ''</ul'')
             (html_to_telegram (ascii ''<h2>Title</h2><p>Body</p><ul><li>A</li></ul>'') 3800) \<and>
         \<not> occurs_in (ascii ''<li'')
             (html_to_telegram (ascii ''<h2>Title</h2><p>Body</p><ul><li>A</li></ul>'') 3800) \<and>
         \<not> occurs_in (ascii ''</li'')
             (html_to_telegram (ascii ''<h2>Title</h2><p>Body</p><ul><li>A</li></ul>'') 3800) \<and>
         occurs_in (ascii ''<b>Title</b>'')
             (html_to_telegram (ascii ''<h2>Title</h2><p>Body</p><ul><li>A</li></ul>'') 3800) \<and>
         occurs_in [0x0A, 0x2022, 0x20, 0x41]
             (html_to_telegram (ascii ''<h2>Title</h2><p>Body</p><ul><li>A</li></ul>'') 3800) \<and>
         int (length (html_to_telegram h max_length)) \<le> max_length \<and>
         html_to_telegram h max_length
           = (if int (length (telegram_markup h)) \<le> max_length then telegram_markup h
              else take (nat (max_length - 3)) (telegram_markup h) @ ascii ''...'')"
proof -
  let ?ex = "ascii ''<h2>Title</h2><p>Body</p><ul><li>A</li></ul>''"
  let ?out = "ascii ''<b>Title</b>'' @ [0x0A, 0x0A] @ ascii ''Body'' @ [0x0A, 0x0A, 0x2022, 0x20, 0x41]"
  have len: "length ?out = 23"
    by (simp add: ascii_def)
  have ex: "html_to_telegram ?ex 3800 = ?out"
    unfolding html_to_telegram_def Let_def markup_example using len by simp
  have no: "\<not> occurs_in (ascii ''<h2'') ?out" "\<not> occurs_in (ascii ''</h2'') ?out"
    "\<not> occurs_in (ascii ''<ul'') ?out" "\<not> occurs_in (ascii ''</ul'') ?out"
    "\<not> occurs_in (ascii ''<li'') ?out" "\<not> occurs_in (ascii ''</li'') ?out"
    by code_simp+
  have yes: "occurs_in (ascii ''<b>Title</b>'') ?out" "occurs_in [0x0A, 0x2022, 0x20, 0x41] ?out"
    by code_simp+
  have cut: "html_to_telegram h max_length
           = (if int (length (telegram_markup h)) \<le> max_length then telegram_markup h
              else take (nat (max_length - 3)) (telegram_markup h) @ ascii ''...'')"
    using assms by (simp add: html_to_telegram_def Let_def slice_to_def)
  have cap: "int (length (html_to_telegram h max_length)) \<le> max_length"
    unfolding cut using assms by (simp add: ascii_def)
  show ?thesis
    unfolding ex using no yes cut cap by blast
qed

theorem html_to_telegram_example_and_cap_witness:
  "(3::int) \<le> 10 \<and>
   html_to_telegram (ascii ''<h2>Title</h2><p>Body</p><ul><li>A</li></ul>'') 10
     = ascii ''<b>Titl...'' \<and>
   int (length (html_to_telegram (ascii ''<h2>Title</h2><p>Body</p><ul><li>A</li></ul>'') 10)) \<le> 10"
proof -
  have h: "(3::int) \<le> 10" by simp
  have m: "telegram_markup (ascii ''<h2>Title</h2><p>Body</p><ul><li>A</li></ul>'')
   = ascii ''<b>Title</b>'' @ [0x0A, 0x0A] @ ascii ''Body'' @ [0x0A, 0x0A, 0x2022, 0x20, 0x41]"
    by code_simp
  from html_to_telegram_example_and_cap [OF h, of "ascii ''<h2>Title</h2><p>Body</p><ul><li>A</li></ul>''"]
  have c: "int (length (html_to_telegram (ascii ''<h2>Title</h2><p>Body</p><ul><li>A</li></ul>'') 10)) \<le> 10"
    and e: "html_to_telegram (ascii ''<h2>Title</h2><p>Body</p><ul><li>A</li></ul>'') 10
           = (if int (length (telegram_markup (ascii ''<h2>Title</h2><p>Body</p><ul><li>A</li></ul>''))) \<le> 10
              then telegram_markup (ascii ''<h2>Title</h2><p>Body</p><ul><li>A</li></ul>'')
              else take (nat (10 - 3)) (telegram_markup (ascii ''<h2>Title</h2><p>Body</p><ul><li>A</li></ul>'')) @ ascii ''...'')"
    by blast+
  have "html_to_telegram (ascii ''<h2>Title</h2><p>Body</p><ul><li>A</li></ul>'') 10 = ascii ''<b>Titl...''"
    unfolding e m by (simp add: ascii_def)
  with h c show ?thesis by blast
qed

section \<open>Properties of the pipeline\<close>

lemmas steps = ret_def lift_def and_then_def try_except_def db_read_def db_write_def
  db_settings_def db_add_fingerprint_def called_def call_search_def call_gpt_def call_upload_def
  call_create_def call_send_def notify_def

text \<open>
  C5. For every operator whose settings row has \<open>auto_publish_enabled = false\<close>, the
  scheduled task makes no call that leaves the process and returns the database as it was.
\<close>

theorem disabled_auto_mode_noop:
  assumes "map_of (user_settings d) uid = Some row" and "\<not> auto_publish_enabled row"
  shows "auto_publish_task w site_url uid d = (None, \<lparr>db = d, calls = []\<rparr>)"
  using assms
  by (simp add: auto_publish_task_def auto_publish_body_def steps get_user_settings_def)

theorem disabled_auto_mode_noop_witness:
  "map_of (user_settings (sample_db (sample_row False True True []) [])) 7 = Some (sample_row False True True []) \<and>
   \<not> auto_publish_enabled (sample_row False True True []) \<and>
   auto_publish_task sample_world (ascii ''https://site'') 7 (sample_db (sample_row False True True []) [])
     = (None, \<lparr>db = sample_db (sample_row False True True []) [], calls = []\<rparr>)"
proof -
  have a: "map_of (user_settings (sample_db (sample_row False True True []) [])) 7 = Some (sample_row False True True [])"
    by (simp add: sample_db_def)
  have b: "\<not> auto_publish_enabled (sample_row False True True [])"
    by (simp add: sample_row_def)
  from disabled_auto_mode_noop [OF a b] a b show ?thesis by blast
qed

lemma generate_article_missing:
  assumes "gpt_reply w sources = Inr article_data"
    and "\<not> list_all (\<lambda>field. field \<in> fst ` set article_data) required_fields"
  shows "generate_article w sources
         = Inl (ValueError (ascii ''Missing required fields in GPT response''))"
  using assms by (simp add: generate_article_def)

lemma task_reaches_rewriter:
  assumes "map_of (user_settings d) uid = Some row" and "auto_publish_enabled row"
    and "search_news w default_topic = main_news # rest"
    and "generate_article w (search_news w (source_query main_news)) = Inl e"
  shows "auto_publish_task w site_url uid d
         = (tg_notify w uid (Auto_error (str_of_exception e)),
            \<lparr>db = log_action uid ''auto_publish'' ''error'' (str_of_exception e) None d,
             calls = [GNews_search (sanitize_query default_topic),
                      GNews_search (sanitize_query (source_query main_news)),
                      GPT_generate,
                      TG_notify uid (Auto_error (str_of_exception e))
                        (tg_notify w uid (Auto_error (str_of_exception e)) = None)]\<rparr>)"
  using assms
  by (simp add: auto_publish_task_def auto_publish_body_def steps get_user_settings_def
      split: option.splits)

lemma phase_channel_failed:
  assumes "auto_publish_phase w site_url uid row main_news a r = (res, r')"
    and "TG_channel_send x False \<in> set (calls r')"
    and "TG_channel_send x False \<notin> set (calls r)"
  shows "db r' = db r \<and> (\<exists>e. res = Inl e \<and> tg_send w x = Inl e)"
  using assms
  by (auto simp: auto_publish_phase_def upload_cover_def site_phase_def channel_phase_def steps
      is_ok_def
      split: option.splits sum.splits if_splits prod.splits)


lemma body_channel_failed:
  assumes "auto_publish_body w site_url uid \<lparr>db = d, calls = []\<rparr> = (res, r')"
    and "TG_channel_send x False \<in> set (calls r')"
  shows "db r' = d \<and> (\<exists>e. res = Inl e \<and> tg_send w x = Inl e)"
  using assms
  by (auto simp: auto_publish_body_def steps get_user_settings_def default_settings_def
      split: option.splits sum.splits if_splits prod.splits list.splits
      dest!: phase_channel_failed)

lemma task_channel_failed:
  assumes "auto_publish_task w site_url uid d = (res, r)"
    and "TG_channel_send x False \<in> set (calls r)"
  shows "published_articles (db r) = published_articles d \<and>
         article_fingerprints (db r) = article_fingerprints d \<and>
         user_settings (db r) = user_settings d \<and>
         (\<exists>e. tg_send w x = Inl e \<and>
              logs (db r) = logs d @
                [\<lparr>log_user_id = uid, log_action_kind = ''auto_publish'', log_status = ''error'',
                  log_message = str_of_exception e, log_details = None\<rparr>] \<and>
              last (calls r) = TG_notify uid (Auto_error (str_of_exception e))
                (tg_notify w uid (Auto_error (str_of_exception e)) = None))"
proof (cases "auto_publish_body w site_url uid \<lparr>db = d, calls = []\<rparr>")
  case (Pair res' r')
  show ?thesis
  proof (cases res')
    case (Inl e)
    have c: "calls r = calls r' @ [TG_notify uid (Auto_error (str_of_exception e))
                        (tg_notify w uid (Auto_error (str_of_exception e)) = None)]"
      and dbr: "db r = log_action uid ''auto_publish'' ''error'' (str_of_exception e) None (db r')"
      using assms(1) Pair Inl
      by (cases "tg_notify w uid (Auto_error (str_of_exception e))";
          auto simp: auto_publish_task_def steps)+
    from c assms(2) have "TG_channel_send x False \<in> set (calls r')" by auto
    from body_channel_failed [OF Pair this] Inl have "db r' = d" "tg_send w x = Inl e"
      by auto
    with dbr c show ?thesis by (simp add: log_action_def)
  next
    case (Inr u)
    then have "r = r'"
      using assms(1) Pair by (simp add: auto_publish_task_def steps)
    with assms(2) body_channel_failed [OF Pair] Inr show ?thesis by auto
  qed
qed

lemma run_channel_down:
  "auto_publish_task channel_down_world (ascii ''https://site'') 7
     (sample_db (sample_row True True True []) [])
   = (None,
      \<lparr>db = log_action 7 ''auto_publish'' ''error'' (ascii ''chat not found'') None
              (sample_db (sample_row True True True []) []),
       calls = [GNews_search default_topic,
                GNews_search (ascii ''Economy grows''),
                GPT_generate,
                WP_create_post (ascii ''abc'') True,
                TG_channel_send
                  (channel_text (ascii ''https://site'') (ascii ''<p>Body</p>'')
                     (Some (ascii ''https://site/p10''))) False,
                TG_notify 7 (Auto_error (ascii ''chat not found'')) True]\<rparr>)"
  by code_simp


lemma task_duplicate_skipped:
  assumes "map_of (user_settings d) uid = Some row" and "auto_publish_enabled row"
    and "search_news w default_topic = main_news # rest"
    and "generate_article w (search_news w (source_query main_news)) = Inr a"
    and "category_enabled (enabled_categories row) (get_category_id_by_name d (category a))"
    and "check_duplicate (title a) (article_fingerprints d) = Inr True"
  shows "auto_publish_task w site_url uid d =
          (case tg_notify w uid Duplicate_found of
             None \<Rightarrow>
               (None,
                \<lparr>db = d,
                 calls = [GNews_search (sanitize_query default_topic),
                          GNews_search (sanitize_query (source_query main_news)),
                          GPT_generate,
                          TG_notify uid Duplicate_found True]\<rparr>)
           | Some e \<Rightarrow>
               (tg_notify w uid (Auto_error (str_of_exception e)),
                \<lparr>db = log_action uid ''auto_publish'' ''error'' (str_of_exception e) None d,
                 calls = [GNews_search (sanitize_query default_topic),
                          GNews_search (sanitize_query (source_query main_news)),
                          GPT_generate,
                          TG_notify uid Duplicate_found False,
                          TG_notify uid (Auto_error (str_of_exception e))
                            (tg_notify w uid (Auto_error (str_of_exception e)) = None)]\<rparr>))"
  using assms
  by (simp add: auto_publish_task_def auto_publish_body_def steps get_user_settings_def
      split: option.splits)

lemma task_no_news:
  assumes "map_of (user_settings d) uid = Some row" and "auto_publish_enabled row"
    and "search_news w default_topic = []"
  shows "auto_publish_task w site_url uid d =
          (case tg_notify w uid No_news of
             None \<Rightarrow>
               (None,
                \<lparr>db = d,
                 calls = [GNews_search (sanitize_query default_topic),
                          TG_notify uid No_news True]\<rparr>)
           | Some e \<Rightarrow>
               (tg_notify w uid (Auto_error (str_of_exception e)),
                \<lparr>db = log_action uid ''auto_publish'' ''error'' (str_of_exception e) None d,
                 calls = [GNews_search (sanitize_query default_topic),
                          TG_notify uid No_news False,
                          TG_notify uid (Auto_error (str_of_exception e))
                            (tg_notify w uid (Auto_error (str_of_exception e)) = None)]\<rparr>))"
  using assms
  by (simp add: auto_publish_task_def auto_publish_body_def steps get_user_settings_def
      split: option.splits)


lemma run_manual_duplicate:
  "publish_handler sample_world (ascii ''https://site'') 7 ''wp'' (Some sample_article) None
     (sample_db (sample_row False True False [])
        [(''900150983cd24fb0d6963f7d28e17f72'', ascii ''abc'')])
   = (None,
      \<lparr>db = log_action 7 ''publish'' ''success'' (ascii ''Published: abc'') (Some (Some 10, None))
              (save_published_article 7 (Some 10) None (ascii ''abc'')
                 (Some (ascii ''https://site/p10'')) (Some 3) True False
                 (sample_db (sample_row False True False [])
                    [(''900150983cd24fb0d6963f7d28e17f72'', ascii ''abc'')])),
       calls = [TG_notify 7 (Progress ''publishing'') True,
                TG_notify 7 (Progress ''uploading image'') True,
                TG_notify 7 (Progress ''creating post'') True,
                WP_create_post (ascii ''abc'') True,
                TG_notify 7 (Progress ''saving'') True,
                TG_notify 7 (Published (ascii ''abc'') (Some (ascii ''https://site/p10'')) None)
                  True]\<rparr>)"
  by code_simp

lemma sample_search: "search_news sample_world q = [sample_item]"
  by (simp add: search_news_def sample_world_def)

lemma sample_generate:
  "generate_article sample_world s
   = Inr \<lparr>title = ascii ''abc'', category = ascii ''World'', excerpt = ascii ''Short'',
          content = ascii ''<p>Body</p>'', seo_description = ascii ''Seo'', category_id = None\<rparr>"
  by (simp add: generate_article_def sample_world_def sample_reply_def required_fields_def)

text \<open>
  C1, as stated, fails. With both destinations on, a site that accepts the post and a
  channel that raises, the task ends in its exception handler: the post is on the site, but
  no row is written to \<open>published_articles\<close> and no fingerprint is registered; the only
  write is the error entry of the log.
\<close>

theorem partial_success_counterexample:
  "auto_publish_task channel_down_world (ascii ''https://site'') 7
     (sample_db (sample_row True True True []) [])
   = (None,
      \<lparr>db = log_action 7 ''auto_publish'' ''error'' (ascii ''chat not found'') None
              (sample_db (sample_row True True True []) []),
       calls = [GNews_search default_topic,
                GNews_search (ascii ''Economy grows''),
                GPT_generate,
                WP_create_post (ascii ''abc'') True,
                TG_channel_send
                  (channel_text (ascii ''https://site'') (ascii ''<p>Body</p>'')
                     (Some (ascii ''https://site/p10''))) False,
                TG_notify 7 (Auto_error (ascii ''chat not found'')) True]\<rparr>) \<and>
   published_articles
     (log_action 7 ''auto_publish'' ''error'' (ascii ''chat not found'') None
        (sample_db (sample_row True True True []) [])) = [] \<and>
   article_fingerprints
     (log_action 7 ''auto_publish'' ''error'' (ascii ''chat not found'') None
        (sample_db (sample_row True True True []) [])) = []"
proof -
  have "published_articles
     (log_action 7 ''auto_publish'' ''error'' (ascii ''chat not found'') None
        (sample_db (sample_row True True True []) [])) = []"
    and "article_fingerprints
     (log_action 7 ''auto_publish'' ''error'' (ascii ''chat not found'') None
        (sample_db (sample_row True True True []) [])) = []"
    by (simp_all add: log_action_def sample_db_def)
  with run_channel_down show ?thesis by blast
qed

text \<open>
  C1, amended. For every run of the scheduled task in which the site phase succeeds and the
  channel phase raises, the run persists no publish record, registers no fingerprint and
  leaves the settings (with \<open>last_publish_time\<close>) as they were; it appends one log
  entry with status \<open>error\<close> that carries the text of the channel's exception.
\<close>

theorem partial_success_not_recorded:
  assumes "auto_publish_task w site_url uid d = (res, r)"
    and "WP_create_post t True \<in> set (calls r)"
    and "TG_channel_send x False \<in> set (calls r)"
  shows "published_articles (db r) = published_articles d \<and>
         article_fingerprints (db r) = article_fingerprints d \<and>
         user_settings (db r) = user_settings d \<and>
         (\<exists>e. tg_send w x = Inl e \<and>
              logs (db r) = logs d @
                [\<lparr>log_user_id = uid, log_action_kind = ''auto_publish'', log_status = ''error'',
                  log_message = str_of_exception e, log_details = None\<rparr>] \<and>
              last (calls r) = TG_notify uid (Auto_error (str_of_exception e))
                (tg_notify w uid (Auto_error (str_of_exception e)) = None))"
  using task_channel_failed [OF assms(1) assms(3)] .

theorem partial_success_not_recorded_witness:
  "auto_publish_task channel_down_world (ascii ''https://site'') 7
     (sample_db (sample_row True True True []) [])
   = (None,
      \<lparr>db = log_action 7 ''auto_publish'' ''error'' (ascii ''chat not found'') None
              (sample_db (sample_row True True True []) []),
       calls = [GNews_search default_topic,
                GNews_search (ascii ''Economy grows''),
                GPT_generate,
                WP_create_post (ascii ''abc'') True,
                TG_channel_send
                  (channel_text (ascii ''https://site'') (ascii ''<p>Body</p>'')
                     (Some (ascii ''https://site/p10''))) False,
                TG_notify 7 (Auto_error (ascii ''chat not found'')) True]\<rparr>) \<and>
   WP_create_post (ascii ''abc'') True
     \<in> set [GNews_search default_topic,
             GNews_search (ascii ''Economy grows''),
             GPT_generate,
             WP_create_post (ascii ''abc'') True,
             TG_channel_send
               (channel_text (ascii ''https://site'') (ascii ''<p>Body</p>'')
                  (Some (ascii ''https://site/p10''))) False,
             TG_notify 7 (Auto_error (ascii ''chat not found'')) True] \<and>
   TG_channel_send
       (channel_text (ascii ''https://site'') (ascii ''<p>Body</p>'')
          (Some (ascii ''https://site/p10''))) False
     \<in> set [GNews_search default_topic,
             GNews_search (ascii ''Economy grows''),
             GPT_generate,
             WP_create_post (ascii ''abc'') True,
             TG_channel_send
               (channel_text (ascii ''https://site'') (ascii ''<p>Body</p>'')
                  (Some (ascii ''https://site/p10''))) False,
             TG_notify 7 (Auto_error (ascii ''chat not found'')) True] \<and>
   published_articles
     (log_action 7 ''auto_publish'' ''error'' (ascii ''chat not found'') None
        (sample_db (sample_row True True True []) []))
    = published_articles (sample_db (sample_row True True True []) []) \<and>
   article_fingerprints
     (log_action 7 ''auto_publish'' ''error'' (ascii ''chat not found'') None
        (sample_db (sample_row True True True []) []))
    = article_fingerprints (sample_db (sample_row True True True []) [])"
proof -
  let ?x = "channel_text (ascii ''https://site'') (ascii ''<p>Body</p>'')
              (Some (ascii ''https://site/p10''))"
  let ?cs = "[GNews_search default_topic, GNews_search (ascii ''Economy grows''), GPT_generate,
              WP_create_post (ascii ''abc'') True, TG_channel_send ?x False,
              TG_notify 7 (Auto_error (ascii ''chat not found'')) True]"
  note a = run_channel_down
  have b: "WP_create_post (ascii ''abc'') True \<in> set ?cs"
    by simp
  have c: "TG_channel_send ?x False \<in> set ?cs"
    by simp
  from partial_success_not_recorded [OF a, of "ascii ''abc''" ?x] b c
  have "published_articles
     (log_action 7 ''auto_publish'' ''error'' (ascii ''chat not found'') None
        (sample_db (sample_row True True True []) []))
    = published_articles (sample_db (sample_row True True True []) []) \<and>
   article_fingerprints
     (log_action 7 ''auto_publish'' ''error'' (ascii ''chat not found'') None
        (sample_db (sample_row True True True []) []))
    = article_fingerprints (sample_db (sample_row True True True []) [])"
    by simp
  with a b c show ?thesis by blast
qed

text \<open>
  C2. The manual entry point \<open>publish_handler\<close> never consults the fingerprint store:
  for an article whose title has a registered fingerprint it creates the post on the site
  and writes a second publish record. The claim holds on the scheduled entry point only
  (\<open>scheduled_duplicate_skipped\<close> below).
\<close>

theorem manual_publish_ignores_fingerprint:
  "check_duplicate (title sample_article) [(''900150983cd24fb0d6963f7d28e17f72'', ascii ''abc'')]
     = Inr True \<and>
   publish_handler sample_world (ascii ''https://site'') 7 ''wp'' (Some sample_article) None
     (sample_db (sample_row False True False [])
        [(''900150983cd24fb0d6963f7d28e17f72'', ascii ''abc'')])
   = (None,
      \<lparr>db = log_action 7 ''publish'' ''success'' (ascii ''Published: abc'') (Some (Some 10, None))
              (save_published_article 7 (Some 10) None (ascii ''abc'')
                 (Some (ascii ''https://site/p10'')) (Some 3) True False
                 (sample_db (sample_row False True False [])
                    [(''900150983cd24fb0d6963f7d28e17f72'', ascii ''abc'')])),
       calls = [TG_notify 7 (Progress ''publishing'') True,
                TG_notify 7 (Progress ''uploading image'') True,
                TG_notify 7 (Progress ''creating post'') True,
                WP_create_post (ascii ''abc'') True,
                TG_notify 7 (Progress ''saving'') True,
                TG_notify 7 (Published (ascii ''abc'') (Some (ascii ''https://site/p10'')) None)
                  True]\<rparr>)"
proof -
  have "check_duplicate (title sample_article)
          [(''900150983cd24fb0d6963f7d28e17f72'', ascii ''abc'')] = Inr True"
    by (simp add: check_duplicate_def sample_article_def title_hash_abc)
  with run_manual_duplicate show ?thesis by blast
qed

text \<open>
  The scheduled entry point does what the manual one misses: when the rewritten title has a
  registered fingerprint, the run makes no destination call, writes no publish record and no
  fingerprint, and tells the operator about the duplicate.
\<close>

lemma scheduled_duplicate_skipped:
  assumes "map_of (user_settings d) uid = Some row" and "auto_publish_enabled row"
    and "search_news w default_topic = main_news # rest"
    and "generate_article w (search_news w (source_query main_news)) = Inr a"
    and "category_enabled (enabled_categories row) (get_category_id_by_name d (category a))"
    and "check_duplicate (title a) (article_fingerprints d) = Inr True"
  shows "\<not> list_ex is_destination_call (calls (snd (auto_publish_task w site_url uid d))) \<and>
         published_articles (db (snd (auto_publish_task w site_url uid d)))
           = published_articles d \<and>
         article_fingerprints (db (snd (auto_publish_task w site_url uid d)))
           = article_fingerprints d \<and>
         TG_notify uid Duplicate_found (tg_notify w uid Duplicate_found = None)
           \<in> set (calls (snd (auto_publish_task w site_url uid d)))"
  unfolding task_duplicate_skipped [OF assms]
  by (simp add: log_action_def split: option.splits)

lemma scheduled_duplicate_skipped_instance:
  "map_of (user_settings (sample_db (sample_row True True True [])
       [(''900150983cd24fb0d6963f7d28e17f72'', ascii ''abc'')])) 7
     = Some (sample_row True True True []) \<and>
   auto_publish_enabled (sample_row True True True []) \<and>
   search_news sample_world default_topic = sample_item # [] \<and>
   generate_article sample_world (search_news sample_world (source_query sample_item))
     = Inr (sample_article\<lparr>category_id := None\<rparr>) \<and>
   category_enabled (enabled_categories (sample_row True True True []))
     (get_category_id_by_name (sample_db (sample_row True True True [])
        [(''900150983cd24fb0d6963f7d28e17f72'', ascii ''abc'')])
        (category (sample_article\<lparr>category_id := None\<rparr>))) \<and>
   check_duplicate (title (sample_article\<lparr>category_id := None\<rparr>))
     (article_fingerprints (sample_db (sample_row True True True [])
        [(''900150983cd24fb0d6963f7d28e17f72'', ascii ''abc'')])) = Inr True \<and>
   \<not> list_ex is_destination_call
       (calls (snd (auto_publish_task sample_world (ascii ''https://site'') 7
          (sample_db (sample_row True True True [])
             [(''900150983cd24fb0d6963f7d28e17f72'', ascii ''abc'')]))))"
proof -
  let ?d = "sample_db (sample_row True True True [])
       [(''900150983cd24fb0d6963f7d28e17f72'', ascii ''abc'')]"
  let ?a = "sample_article\<lparr>category_id := None\<rparr>"
  have h1: "map_of (user_settings ?d) 7 = Some (sample_row True True True [])"
    by (simp add: sample_db_def)
  have h2: "auto_publish_enabled (sample_row True True True [])"
    by (simp add: sample_row_def)
  have h3: "search_news sample_world default_topic = sample_item # []"
    by (rule sample_search)
  have h4: "generate_article sample_world (search_news sample_world (source_query sample_item))
     = Inr ?a"
    by (simp add: sample_generate sample_article_def)
  have h5: "category_enabled (enabled_categories (sample_row True True True []))
     (get_category_id_by_name ?d (category ?a))"
    by (simp add: category_enabled_def sample_row_def)
  have h6: "check_duplicate (title ?a) (article_fingerprints ?d) = Inr True"
    by (simp add: check_duplicate_def sample_article_def sample_db_def title_hash_abc)
  from scheduled_duplicate_skipped [OF h1 h2 h3 h4 h5 h6, of "ascii ''https://site''"]
    h1 h2 h3 h4 h5 h6
  show ?thesis by blast
qed




text \<open>
  C7. For every rewriter response that lacks one of the five required fields,
  \<open>generate_article\<close> raises \<open>ValueError\<close>, and the run ends in the exception handler:
  one log entry with status \<open>error\<close> and a message to the operator, no destination call,
  and no write to the publish records, the fingerprints or the settings (which hold
  \<open>last_publish_time\<close>).
\<close>

theorem rewriter_missing_field_fails:
  assumes "map_of (user_settings d) uid = Some row" and "auto_publish_enabled row"
    and "search_news w default_topic = main_news # rest"
    and "gpt_reply w (search_news w (source_query main_news)) = Inr article_data"
    and "\<not> list_all (\<lambda>field. field \<in> fst ` set article_data) required_fields"
  shows "generate_article w (search_news w (source_query main_news))
           = Inl (ValueError (ascii ''Missing required fields in GPT response'')) \<and>
         auto_publish_task w site_url uid d
           = (tg_notify w uid (Auto_error (ascii ''Missing required fields in GPT response'')),
              \<lparr>db = log_action uid ''auto_publish'' ''error''
                      (ascii ''Missing required fields in GPT response'') None d,
               calls = [GNews_search (sanitize_query default_topic),
                        GNews_search (sanitize_query (source_query main_news)),
                        GPT_generate,
                        TG_notify uid (Auto_error (ascii ''Missing required fields in GPT response''))
                          (tg_notify w uid
                             (Auto_error (ascii ''Missing required fields in GPT response''))
                           = None)]\<rparr>) \<and>
         \<not> list_ex is_destination_call (calls (snd (auto_publish_task w site_url uid d))) \<and>
         published_articles (db (snd (auto_publish_task w site_url uid d)))
           = published_articles d \<and>
         article_fingerprints (db (snd (auto_publish_task w site_url uid d)))
           = article_fingerprints d \<and>
         user_settings (db (snd (auto_publish_task w site_url uid d))) = user_settings d \<and>
         logs (db (snd (auto_publish_task w site_url uid d)))
           = logs d @
               [\<lparr>log_user_id = uid, log_action_kind = ''auto_publish'', log_status = ''error'',
                 log_message = ascii ''Missing required fields in GPT response'',
                 log_details = None\<rparr>]"
proof -
  note g = generate_article_missing [OF assms(4) assms(5)]
  note t = task_reaches_rewriter [OF assms(1) assms(2) assms(3) g, of site_url]
  show ?thesis
    unfolding t using g by (simp add: log_action_def)
qed

theorem rewriter_missing_field_fails_witness:
  "map_of (user_settings (sample_db (sample_row True True True []) [])) 7
     = Some (sample_row True True True []) \<and>
   auto_publish_enabled (sample_row True True True []) \<and>
   search_news incomplete_reply_world default_topic = sample_item # [] \<and>
   gpt_reply incomplete_reply_world (search_news incomplete_reply_world (source_query sample_item))
     = Inr [(''title'', ascii ''abc'')] \<and>
   \<not> list_all (\<lambda>field. field \<in> fst ` set [(''title'', ascii ''abc'')]) required_fields \<and>
   \<not> list_ex is_destination_call
       (calls (snd (auto_publish_task incomplete_reply_world (ascii ''https://site'') 7
          (sample_db (sample_row True True True []) [])))) \<and>
   published_articles
       (db (snd (auto_publish_task incomplete_reply_world (ascii ''https://site'') 7
          (sample_db (sample_row True True True []) []))))
     = published_articles (sample_db (sample_row True True True []) [])"
proof -
  let ?d = "sample_db (sample_row True True True []) []"
  have h1: "map_of (user_settings ?d) 7 = Some (sample_row True True True [])"
    by (simp add: sample_db_def)
  have h2: "auto_publish_enabled (sample_row True True True [])"
    by (simp add: sample_row_def)
  have h3: "search_news incomplete_reply_world default_topic = sample_item # []"
    by (simp add: search_news_def incomplete_reply_world_def sample_world_def)
  have h4: "gpt_reply incomplete_reply_world
              (search_news incomplete_reply_world (source_query sample_item))
            = Inr [(''title'', ascii ''abc'')]"
    by (simp add: incomplete_reply_world_def)
  have h5: "\<not> list_all (\<lambda>field. field \<in> fst ` set [(''title'', ascii ''abc'')]) required_fields"
    by (simp add: required_fields_def)
  from rewriter_missing_field_fails [OF h1 h2 h3 h4 h5, of "ascii ''https://site''"]
    h1 h2 h3 h4 h5
  show ?thesis by blast
qed

text \<open>
  \<open>search_news\<close> returns the empty list for every request that failed.
\<close>

lemma search_news_failed:
  "aggregator_failed (gnews_get w (sanitize_query query)) \<Longrightarrow> search_news w query = []"
  by (cases "gnews_get w (sanitize_query query)") (auto simp: search_news_def)

text \<open>
  A failed request for the default topic: the run is the one of a reply with status 200 and
  no articles, the message that no news was found.
\<close>

lemma seed_failure_is_no_results:
  assumes "aggregator_failed (gnews_get w (sanitize_query default_topic))"
    and "map_of (user_settings d) uid = Some row" and "auto_publish_enabled row"
  shows "search_news w default_topic = [] \<and>
         auto_publish_task w site_url uid d
           = auto_publish_task (w\<lparr>gnews_get := (\<lambda>q. Reply 200 (Some []))\<rparr>) site_url uid d \<and>
         auto_publish_task w site_url uid d
           = (case tg_notify w uid No_news of
                None \<Rightarrow>
                  (None,
                   \<lparr>db = d,
                    calls = [GNews_search (sanitize_query default_topic),
                             TG_notify uid No_news True]\<rparr>)
              | Some e \<Rightarrow>
                  (tg_notify w uid (Auto_error (str_of_exception e)),
                   \<lparr>db = log_action uid ''auto_publish'' ''error'' (str_of_exception e) None d,
                    calls = [GNews_search (sanitize_query default_topic),
                             TG_notify uid No_news False,
                             TG_notify uid (Auto_error (str_of_exception e))
                               (tg_notify w uid (Auto_error (str_of_exception e)) = None)]\<rparr>))"
proof -
  note s = search_news_failed [OF assms(1)]
  have e: "search_news (w\<lparr>gnews_get := (\<lambda>q. Reply 200 (Some []))\<rparr>) default_topic = []"
    by (simp add: search_news_def)
  have t: "auto_publish_task w site_url uid d
           = auto_publish_task (w\<lparr>gnews_get := (\<lambda>q. Reply 200 (Some []))\<rparr>) site_url uid d"
    unfolding task_no_news [OF assms(2) assms(3) s]
      task_no_news [OF assms(2) assms(3) e]
    by (cases "tg_notify w uid No_news") simp_all
  from s t task_no_news [OF assms(2) assms(3) s, of site_url] show ?thesis
    by simp
qed

text \<open>A failed request for the sources: the run goes on to the rewriter.\<close>

lemma phase_keeps_calls:
  "auto_publish_phase w site_url uid row main_news a r = (res, r') \<Longrightarrow>
   set (calls r) \<subseteq> set (calls r')"
  by (auto simp: auto_publish_phase_def upload_cover_def site_phase_def channel_phase_def steps
      split: option.splits sum.splits if_splits prod.splits)

lemma failed_sources_reach_rewriter:
  assumes "map_of (user_settings d) uid = Some row" and "auto_publish_enabled row"
    and "search_news w default_topic = main_news # rest"
    and "aggregator_failed (gnews_get w (sanitize_query (source_query main_news)))"
  shows "GPT_generate \<in> set (calls (snd (auto_publish_task w site_url uid d)))"
proof -
  note s = search_news_failed [OF assms(4)]
  show ?thesis
    using assms(1-3) s
    by (auto simp: auto_publish_task_def auto_publish_body_def steps get_user_settings_def
        split: option.splits sum.splits if_splits prod.splits
        dest!: phase_keeps_calls)
qed

text \<open>
  C10. \<open>search_news\<close> is total and returns the empty list for every failed request, and a
  failed request for the default topic ends the run on the neutral path (the three lemmas
  above). A failed request for the sources does not: \<open>auto_publish_task\<close> has no check of
  the sources, so with a seed item found and status 500 for the sources request it calls the
  rewriter with no sources and publishes the article.
\<close>

theorem failed_sources_search_still_publishes:
  "aggregator_failed
     (gnews_get sources_down_world (sanitize_query (source_query sample_item))) \<and>
   search_news sources_down_world (source_query sample_item) = [] \<and>
   auto_publish_task sources_down_world (ascii ''https://site'') 7
     (sample_db (sample_row True True False []) [])
   = (None,
      \<lparr>db = log_action 7 ''auto_publish'' ''success'' (ascii ''Auto-published: abc'')
              (Some (Some 10, Some (ascii ''https://site/p10'')))
              (update_last_publish_time 1000 7
                 ((save_published_article 7 (Some 10) None (ascii ''abc'')
                     (Some (ascii ''https://site/p10'')) (Some 3) True False
                     (sample_db (sample_row True True False []) []))
                  \<lparr>article_fingerprints :=
                     [(''900150983cd24fb0d6963f7d28e17f72'', ascii ''abc'')]\<rparr>)),
       calls = [GNews_search default_topic,
                GNews_search (ascii ''Economy grows''),
                GPT_generate,
                WP_create_post (ascii ''abc'') True,
                TG_notify 7
                  (Auto_published (ascii ''abc'') (Some (ascii ''https://site/p10'')) None)
                  True]\<rparr>)"
proof -
  have a: "aggregator_failed
     (gnews_get sources_down_world (sanitize_query (source_query sample_item)))"
    by code_simp
  have b: "search_news sources_down_world (source_query sample_item) = []"
    by (rule search_news_failed [OF a])
  have c: "auto_publish_task sources_down_world (ascii ''https://site'') 7
     (sample_db (sample_row True True False []) [])
   = (None,
      \<lparr>db = log_action 7 ''auto_publish'' ''success'' (ascii ''Auto-published: abc'')
              (Some (Some 10, Some (ascii ''https://site/p10'')))
              (update_last_publish_time 1000 7
                 ((save_published_article 7 (Some 10) None (ascii ''abc'')
                     (Some (ascii ''https://site/p10'')) (Some 3) True False
                     (sample_db (sample_row True True False []) []))
                  \<lparr>article_fingerprints :=
                     [(''900150983cd24fb0d6963f7d28e17f72'', ascii ''abc'')]\<rparr>)),
       calls = [GNews_search default_topic,
                GNews_search (ascii ''Economy grows''),
                GPT_generate,
                WP_create_post (ascii ''abc'') True,
                TG_notify 7
                  (Auto_published (ascii ''abc'') (Some (ascii ''https://site/p10'')) None)
                  True]\<rparr>)"
    by code_simp
  from a b c show ?thesis by blast
qed

end
